theory Spec2Isabelle
  imports Main "HOL-Library.AList"
begin

section \<open>The Clawdbot sandbox worker: data model\<close>

text \<open>
  The worker (one TypeScript module) supervises a gateway process inside a
  Cloudflare sandbox and proxies requests to it. The sandbox SDK and the Hono
  router are external; what they answer is a parameter of the model, what the
  module does with the answers is translated here function by function.
\<close>

definition CLAWDBOT_PORT :: nat where
  "CLAWDBOT_PORT = 18789"

definition STARTUP_TIMEOUT_MS :: nat where
  "STARTUP_TIMEOUT_MS = 180000"

text \<open>
  \<^verbatim>\<open>interface ClawdbotEnv\<close>: every string binding is optional
  (\<^verbatim>\<open>string | undefined\<close>). The \<^verbatim>\<open>Sandbox\<close> namespace binding is
  the sandbox parameter of the functions below.
\<close>

record ClawdbotEnv =
  ANTHROPIC_API_KEY :: "string option"
  OPENAI_API_KEY :: "string option"
  CLAWDBOT_GATEWAY_TOKEN :: "string option"
  CLAWDBOT_DEV_MODE :: "string option"
  CLAWDBOT_BIND_MODE :: "string option"
  TELEGRAM_BOT_TOKEN :: "string option"
  TELEGRAM_DM_POLICY :: "string option"
  DISCORD_BOT_TOKEN :: "string option"
  DISCORD_DM_POLICY :: "string option"
  SLACK_BOT_TOKEN :: "string option"
  SLACK_APP_TOKEN :: "string option"
  DEBUG_ROUTES_ENABLED :: "string option"

text \<open>
  A value the SDK or the module throws: an \<^verbatim>\<open>Error\<close> instance with its
  message, or any other thrown value (shown by its text). The handler tells
  them apart with \<^verbatim>\<open>instanceof Error\<close>.
\<close>

datatype thrown = Error string | NonError string

text \<open>The SDK's \<^verbatim>\<open>Process\<close>, as far as the module reads it.\<close>

record proc =
  proc_id :: string
  proc_command :: string
  proc_status :: string

record logs =
  stdout :: string
  stderr :: string

record wait_opts =
  mode :: string
  timeout :: nat

text \<open>
  The inbound request. \<^verbatim>\<open>pathname\<close> and \<^verbatim>\<open>search\<close> are what
  \<^verbatim>\<open>new URL(request.url)\<close> yields, \<^verbatim>\<open>upgrade\<close> is
  \<^verbatim>\<open>request.headers.get('Upgrade')\<close>; \<^verbatim>\<open>http_method\<close> is the method the
  router dispatches on.
\<close>

record request =
  http_method :: string
  url :: string
  pathname :: string
  search :: string
  upgrade :: "string option"

datatype json = JStr string | JNum nat | JObj "(string \<times> json) list"

text \<open>
  A response: \<^verbatim>\<open>c.json(obj, status)\<close> gives a JSON body, the proxy hands
  back whatever the sandbox answered.
\<close>

datatype body = JsonBody json | RawBody string

record response =
  status :: nat
  body :: body

definition c_json :: "(string \<times> json) list \<Rightarrow> nat \<Rightarrow> response" where
  "c_json obj st = \<lparr>status = st, body = JsonBody (JObj obj)\<rparr>"

section \<open>Effects: the sandbox and the trace of calls\<close>

text \<open>Arguments of \<^verbatim>\<open>console.log\<close> and \<^verbatim>\<open>console.error\<close>.\<close>

datatype jsval = Str string | Num nat | Thrown thrown | Keys "string list"

datatype level = Log | Err

text \<open>
  Every call the module makes on the sandbox, a process or the console is
  recorded, in order, with its arguments and its outcome
  (\<open>Inl\<close> a rejection, \<open>Inr\<close> the resolved value).
\<close>

datatype event =
    ListProcesses "thrown + proc list"
  | WaitForPort proc nat wait_opts "thrown + unit"
  | Kill proc "thrown + unit"
  | StartProcess string "(string \<times> string) list option" "thrown + proc"
  | GetLogs proc "thrown + logs"
  | WsConnect request nat "thrown + response"
  | ContainerFetch request nat "thrown + response"
  | Console level "jsval list"

text \<open>
  The sandbox is an arbitrary deterministic machine over a world \<open>'w\<close>:
  each operation answers and moves the world on. Two calls of the same
  operation may answer differently.
\<close>

record 'w sandbox =
  listProcesses :: "'w \<Rightarrow> (thrown + proc list) \<times> 'w"
  startProcess :: "string \<Rightarrow> (string \<times> string) list option \<Rightarrow> 'w \<Rightarrow> (thrown + proc) \<times> 'w"
  waitForPort :: "proc \<Rightarrow> nat \<Rightarrow> wait_opts \<Rightarrow> 'w \<Rightarrow> (thrown + unit) \<times> 'w"
  kill :: "proc \<Rightarrow> 'w \<Rightarrow> (thrown + unit) \<times> 'w"
  getLogs :: "proc \<Rightarrow> 'w \<Rightarrow> (thrown + logs) \<times> 'w"
  wsConnect :: "request \<Rightarrow> nat \<Rightarrow> 'w \<Rightarrow> (thrown + response) \<times> 'w"
  containerFetch :: "request \<Rightarrow> nat \<Rightarrow> 'w \<Rightarrow> (thrown + response) \<times> 'w"

text \<open>The state threaded through the module: the world and the trace so far.\<close>

type_synonym 'w st = "'w \<times> event list"

definition console_log :: "jsval list \<Rightarrow> 'w st \<Rightarrow> 'w st" where
  "console_log args s = (fst s, snd s @ [Console Log args])"

definition console_error :: "jsval list \<Rightarrow> 'w st \<Rightarrow> 'w st" where
  "console_error args s = (fst s, snd s @ [Console Err args])"

definition do_listProcesses :: "'w sandbox \<Rightarrow> 'w st \<Rightarrow> (thrown + proc list) \<times> 'w st" where
  "do_listProcesses sb s =
     (case listProcesses sb (fst s) of
        (r, w') \<Rightarrow> (r, (w', snd s @ [ListProcesses r])))"

definition do_startProcess ::
  "'w sandbox \<Rightarrow> string \<Rightarrow> (string \<times> string) list option \<Rightarrow> 'w st \<Rightarrow> (thrown + proc) \<times> 'w st" where
  "do_startProcess sb cmd e s =
     (case startProcess sb cmd e (fst s) of
        (r, w') \<Rightarrow> (r, (w', snd s @ [StartProcess cmd e r])))"

definition do_waitForPort ::
  "'w sandbox \<Rightarrow> proc \<Rightarrow> nat \<Rightarrow> wait_opts \<Rightarrow> 'w st \<Rightarrow> (thrown + unit) \<times> 'w st" where
  "do_waitForPort sb p port opts s =
     (case waitForPort sb p port opts (fst s) of
        (r, w') \<Rightarrow> (r, (w', snd s @ [WaitForPort p port opts r])))"

definition do_kill :: "'w sandbox \<Rightarrow> proc \<Rightarrow> 'w st \<Rightarrow> (thrown + unit) \<times> 'w st" where
  "do_kill sb p s =
     (case kill sb p (fst s) of
        (r, w') \<Rightarrow> (r, (w', snd s @ [Kill p r])))"

definition do_getLogs :: "'w sandbox \<Rightarrow> proc \<Rightarrow> 'w st \<Rightarrow> (thrown + logs) \<times> 'w st" where
  "do_getLogs sb p s =
     (case getLogs sb p (fst s) of
        (r, w') \<Rightarrow> (r, (w', snd s @ [GetLogs p r])))"

definition do_wsConnect ::
  "'w sandbox \<Rightarrow> request \<Rightarrow> nat \<Rightarrow> 'w st \<Rightarrow> (thrown + response) \<times> 'w st" where
  "do_wsConnect sb req port s =
     (case wsConnect sb req port (fst s) of
        (r, w') \<Rightarrow> (r, (w', snd s @ [WsConnect req port r])))"

definition do_containerFetch ::
  "'w sandbox \<Rightarrow> request \<Rightarrow> nat \<Rightarrow> 'w st \<Rightarrow> (thrown + response) \<times> 'w st" where
  "do_containerFetch sb req port s =
     (case containerFetch sb req port (fst s) of
        (r, w') \<Rightarrow> (r, (w', snd s @ [ContainerFetch req port r])))"

section \<open>Helper functions of the module\<close>

text \<open>
  \<^verbatim>\<open>if (env.X) envVars.X = env.X\<close>: a string is truthy when it is defined
  and not empty; the assignment replaces the key's value in place or appends
  the key, as a JavaScript object does.
\<close>

definition assign_if_truthy ::
  "string \<Rightarrow> string option \<Rightarrow> (string \<times> string) list \<Rightarrow> (string \<times> string) list" where
  "assign_if_truthy k v envVars =
     (case v of
        None \<Rightarrow> envVars
      | Some s \<Rightarrow> if s = [] then envVars else AList.update k s envVars)"

definition buildEnvVars :: "ClawdbotEnv \<Rightarrow> (string \<times> string) list" where
  "buildEnvVars env =
     (let envVars = [];
          envVars = assign_if_truthy ''ANTHROPIC_API_KEY'' (ANTHROPIC_API_KEY env) envVars;
          envVars = assign_if_truthy ''OPENAI_API_KEY'' (OPENAI_API_KEY env) envVars;
          envVars = assign_if_truthy ''CLAWDBOT_GATEWAY_TOKEN'' (CLAWDBOT_GATEWAY_TOKEN env) envVars;
          envVars = assign_if_truthy ''CLAWDBOT_DEV_MODE'' (CLAWDBOT_DEV_MODE env) envVars;
          envVars = assign_if_truthy ''CLAWDBOT_BIND_MODE'' (CLAWDBOT_BIND_MODE env) envVars;
          envVars = assign_if_truthy ''TELEGRAM_BOT_TOKEN'' (TELEGRAM_BOT_TOKEN env) envVars;
          envVars = assign_if_truthy ''TELEGRAM_DM_POLICY'' (TELEGRAM_DM_POLICY env) envVars;
          envVars = assign_if_truthy ''DISCORD_BOT_TOKEN'' (DISCORD_BOT_TOKEN env) envVars;
          envVars = assign_if_truthy ''DISCORD_DM_POLICY'' (DISCORD_DM_POLICY env) envVars;
          envVars = assign_if_truthy ''SLACK_BOT_TOKEN'' (SLACK_BOT_TOKEN env) envVars;
          envVars = assign_if_truthy ''SLACK_APP_TOKEN'' (SLACK_APP_TOKEN env) envVars
      in envVars)"

text \<open>\<^verbatim>\<open>String.prototype.includes\<close>: the needle occurs at some offset
  (\<open>includes\<close> is a keyword of Isabelle, hence the prefix).\<close>

fun str_includes :: "string \<Rightarrow> string \<Rightarrow> bool" where
  "str_includes [] sub = (sub = [])"
| "str_includes (c # cs) sub = (take (length sub) (c # cs) = sub \<or> str_includes cs sub)"

text \<open>The \<^verbatim>\<open>for\<close> loop of \<^verbatim>\<open>findExistingClawdbotProcess\<close>.\<close>

fun find_loop :: "proc list \<Rightarrow> proc option" where
  "find_loop [] = None"
| "find_loop (p # ps) =
     (if (str_includes (proc_command p) ''start-clawdbot.sh'' \<or>
          str_includes (proc_command p) ''clawdbot gateway'') \<and>
         (proc_status p = ''starting'' \<or> proc_status p = ''running'')
      then Some p
      else find_loop ps)"

definition findExistingClawdbotProcess :: "'w sandbox \<Rightarrow> 'w st \<Rightarrow> proc option \<times> 'w st" where
  "findExistingClawdbotProcess sb s =
     (case do_listProcesses sb s of
        (Inr processes, s1) \<Rightarrow> (find_loop processes, s1)
      | (Inl e, s1) \<Rightarrow>
          (None, console_log [Str ''Could not list processes:'', Thrown e] s1))"

section \<open>The gateway supervisor\<close>

text \<open>
  Lines 133 to 141 of the module, the body of the second \<^verbatim>\<open>try\<close>: wait for
  the port of the fresh process, then fetch and print its logs. A rejection of
  either call leaves the block with that value.
\<close>

definition wait_ready :: "'w sandbox \<Rightarrow> proc \<Rightarrow> 'w st \<Rightarrow> (thrown + unit) \<times> 'w st" where
  "wait_ready sb process s =
     (let s = console_log [Str ''Waiting for Clawdbot gateway to be ready on port'',
                           Num CLAWDBOT_PORT] s
      in case do_waitForPort sb process CLAWDBOT_PORT
                \<lparr>mode = ''tcp'', timeout = STARTUP_TIMEOUT_MS\<rparr> s of
           (Inl e, s) \<Rightarrow> (Inl e, s)
         | (Inr _, s) \<Rightarrow>
             (let s = console_log [Str ''Clawdbot gateway is ready!''] s
              in case do_getLogs sb process s of
                   (Inl e, s) \<Rightarrow> (Inl e, s)
                 | (Inr lg, s) \<Rightarrow>
                     (let s = (if stdout lg \<noteq> []
                               then console_log [Str ''Clawdbot stdout:'', Str (stdout lg)] s
                               else s);
                          s = (if stderr lg \<noteq> []
                               then console_log [Str ''Clawdbot stderr:'', Str (stderr lg)] s
                               else s)
                      in (Inr (), s))))"

text \<open>
  Lines 142 to 153, the \<^verbatim>\<open>catch (e)\<close> of that block. The inner
  \<^verbatim>\<open>try\<close> fetches the logs and throws a new \<^verbatim>\<open>Error\<close> carrying the
  error stream; that \<^verbatim>\<open>throw\<close> sits inside the inner \<^verbatim>\<open>try\<close>, so the
  inner \<^verbatim>\<open>catch (logErr)\<close> receives it, as it receives a rejection of
  \<^verbatim>\<open>getLogs\<close>, prints it and rethrows \<^verbatim>\<open>e\<close>.
\<close>

definition startup_failed :: "'w sandbox \<Rightarrow> proc \<Rightarrow> thrown \<Rightarrow> 'w st \<Rightarrow> thrown \<times> 'w st" where
  "startup_failed sb process e s =
     (let s = console_error [Str ''waitForPort failed:'', Thrown e] s
      in case do_getLogs sb process s of
           (Inl logErr, s) \<Rightarrow>
             (e, console_error [Str ''Failed to get logs:'', Thrown logErr] s)
         | (Inr lg, s) \<Rightarrow>
             (let s = console_error [Str ''Clawdbot startup failed. Stderr:'', Str (stderr lg)] s;
                  s = console_error [Str ''Clawdbot startup failed. Stdout:'', Str (stdout lg)] s;
                  logErr = Error (''Clawdbot gateway failed to start. Stderr: '' @
                                  (if stderr lg \<noteq> [] then stderr lg else ''(empty)''))
              in (e, console_error [Str ''Failed to get logs:'', Thrown logErr] s)))"

text \<open>
  Lines 114 to 155: start a new gateway. \<^verbatim>\<open>ensureClawdbotGateway\<close> reaches
  them when no process was found and after the kill of a stuck one.
\<close>

definition start_new_gateway :: "'w sandbox \<Rightarrow> ClawdbotEnv \<Rightarrow> 'w st \<Rightarrow> (thrown + proc) \<times> 'w st" where
  "start_new_gateway sb env s =
     (let s = console_log [Str ''Starting new Clawdbot gateway...''] s;
          envVars = buildEnvVars env;
          command = ''/usr/local/bin/start-clawdbot.sh'';
          s = console_log [Str ''Starting process with command:'', Str command] s;
          s = console_log [Str ''Environment vars being passed:'', Keys (map fst envVars)] s
      in case do_startProcess sb command
                (if length (map fst envVars) > 0 then Some envVars else None) s of
           (Inl startErr, s) \<Rightarrow>
             (Inl startErr, console_error [Str ''Failed to start process:'', Thrown startErr] s)
         | (Inr process, s) \<Rightarrow>
             (let s = console_log [Str ''Process started with id:'', Str (proc_id process),
                                   Str ''status:'', Str (proc_status process)] s
              in case wait_ready sb process s of
                   (Inr _, s) \<Rightarrow> (Inr process, s)
                 | (Inl e, s) \<Rightarrow>
                     (case startup_failed sb process e s of
                        (e', s) \<Rightarrow> (Inl e', s))))"

definition ensureClawdbotGateway ::
  "'w sandbox \<Rightarrow> ClawdbotEnv \<Rightarrow> 'w st \<Rightarrow> (thrown + proc) \<times> 'w st" where
  "ensureClawdbotGateway sb env s =
     (case findExistingClawdbotProcess sb s of
        (None, s) \<Rightarrow> start_new_gateway sb env s
      | (Some existingProcess, s) \<Rightarrow>
          (let s = console_log [Str ''Found existing Clawdbot process:'',
                                Str (proc_id existingProcess),
                                Str ''status:'', Str (proc_status existingProcess)] s;
               s = console_log [Str ''Waiting for Clawdbot gateway on port'', Num CLAWDBOT_PORT,
                                Str ''timeout:'', Num STARTUP_TIMEOUT_MS] s
           in case do_waitForPort sb existingProcess CLAWDBOT_PORT
                     \<lparr>mode = ''tcp'', timeout = STARTUP_TIMEOUT_MS\<rparr> s of
                (Inr _, s) \<Rightarrow>
                  (Inr existingProcess, console_log [Str ''Clawdbot gateway is reachable''] s)
              | (Inl e, s) \<Rightarrow>
                  (let s = console_log
                             [Str ''Existing process not reachable after full timeout, killing and restarting...''] s
                   in case do_kill sb existingProcess s of
                        (Inr _, s) \<Rightarrow> start_new_gateway sb env s
                      | (Inl killError, s) \<Rightarrow>
                          start_new_gateway sb env
                            (console_log [Str ''Failed to kill process:'', Thrown killError] s))))"

section \<open>The application\<close>

text \<open>
  \<^verbatim>\<open>toLowerCase\<close> on the characters \<open>A\<close> to \<open>Z\<close>; the comparison with
  \<^verbatim>\<open>'websocket'\<close> needs no more.
\<close>

definition lower_char :: "char \<Rightarrow> char" where
  "lower_char c =
     (let n = (of_char c :: nat)
      in if 65 \<le> n \<and> n \<le> 90 then char_of (n + 32) else c)"

definition toLowerCase :: "string \<Rightarrow> string" where
  "toLowerCase s = map lower_char s"

text \<open>The error text and the hint of the \<^verbatim>\<open>catch\<close> in the catch-all handler.\<close>

definition error_message :: "thrown \<Rightarrow> string" where
  "error_message error = (case error of Error m \<Rightarrow> m | NonError _ \<Rightarrow> ''Unknown error'')"

definition failure_hint :: "ClawdbotEnv \<Rightarrow> string \<Rightarrow> string" where
  "failure_hint env errorMessage =
     (let hint = ''Check worker logs with: wrangler tail''
      in if \<not> (case ANTHROPIC_API_KEY env of None \<Rightarrow> False | Some k \<Rightarrow> k \<noteq> [])
         then ''ANTHROPIC_API_KEY is not set. Run: wrangler secret put ANTHROPIC_API_KEY''
         else if str_includes errorMessage ''heap out of memory'' \<or> str_includes errorMessage ''OOM''
         then ''Gateway ran out of memory. Try again or check for memory leaks.''
         else hint)"

text \<open>\<^verbatim>\<open>app.all('*', ...)\<close>: ensure the gateway, then proxy.\<close>

definition proxy_handler ::
  "'w sandbox \<Rightarrow> ClawdbotEnv \<Rightarrow> request \<Rightarrow> 'w st \<Rightarrow> (thrown + response) \<times> 'w st" where
  "proxy_handler sb env req s =
     (case ensureClawdbotGateway sb env s of
        (Inl error, s) \<Rightarrow>
          (let s = console_error [Str ''Failed to start Clawdbot:'', Thrown error] s;
               errorMessage = error_message error;
               hint = failure_hint env errorMessage
           in (Inr (c_json [(''error'', JStr ''Clawdbot gateway failed to start''),
                            (''details'', JStr errorMessage),
                            (''hint'', JStr hint)] 503), s))
      | (Inr _, s) \<Rightarrow>
          (if map_option toLowerCase (upgrade req) = Some ''websocket''
           then (let s = console_log [Str ''Proxying WebSocket connection to Clawdbot''] s;
                     s = console_log [Str ''WebSocket URL:'', Str (url req)] s;
                     s = console_log [Str ''WebSocket search params:'', Str (search req)] s
                 in do_wsConnect sb req CLAWDBOT_PORT s)
           else (let s = console_log [Str ''Proxying HTTP request:'',
                                      Str (pathname req @ search req)] s
                 in do_containerFetch sb req CLAWDBOT_PORT s)))"

text \<open>
  The gate of \<^verbatim>\<open>app.use('/debug/*', ...)\<close>: the strict comparison
  \<^verbatim>\<open>c.env.DEBUG_ROUTES_ENABLED !== 'false'\<close>.
\<close>

definition debugEnabled :: "ClawdbotEnv \<Rightarrow> bool" where
  "debugEnabled env = (DEBUG_ROUTES_ENABLED env \<noteq> Some ''false'')"

text \<open>
  Hono's matching of the pattern \<^verbatim>\<open>/debug/*\<close>: the path \<^verbatim>\<open>/debug\<close>
  itself and every path below it.
\<close>

definition under_debug :: "string \<Rightarrow> bool" where
  "under_debug p = (p = ''/debug'' \<or> take 7 p = ''/debug/'')"

text \<open>
  The three handlers of the \<^verbatim>\<open>debug\<close> sub-router read the registry and the
  logs; their bodies are a parameter here, the routing to them is the module's.
\<close>

record 'w debug_routes =
  version_handler :: "request \<Rightarrow> 'w st \<Rightarrow> (thrown + response) \<times> 'w st"
  processes_handler :: "request \<Rightarrow> 'w st \<Rightarrow> (thrown + response) \<times> 'w st"
  logs_handler :: "request \<Rightarrow> 'w st \<Rightarrow> (thrown + response) \<times> 'w st"

text \<open>
  What follows the gate in registration order: the routes mounted by
  \<^verbatim>\<open>app.route('/debug', debug)\<close>, all of them \<^verbatim>\<open>GET\<close>, then the catch-all.
\<close>

definition after_gate ::
  "'w sandbox \<Rightarrow> 'w debug_routes \<Rightarrow> ClawdbotEnv \<Rightarrow> request \<Rightarrow> 'w st \<Rightarrow> (thrown + response) \<times> 'w st" where
  "after_gate sb dbg env req s =
     (if http_method req = ''GET'' \<and> pathname req = ''/debug/version''
      then version_handler dbg req s
      else if http_method req = ''GET'' \<and> pathname req = ''/debug/processes''
      then processes_handler dbg req s
      else if http_method req = ''GET'' \<and> pathname req = ''/debug/logs''
      then logs_handler dbg req s
      else proxy_handler sb env req s)"

text \<open>
  The application: the health route, the gate on \<^verbatim>\<open>/debug/*\<close>, the debug
  routes and the catch-all, tried in the order the module registers them.
\<close>

definition app_fetch ::
  "'w sandbox \<Rightarrow> 'w debug_routes \<Rightarrow> ClawdbotEnv \<Rightarrow> request \<Rightarrow> 'w st \<Rightarrow> (thrown + response) \<times> 'w st" where
  "app_fetch sb dbg env req s =
     (if http_method req = ''GET'' \<and> pathname req = ''/sandbox-health''
      then (Inr (c_json [(''status'', JStr ''ok''),
                         (''service'', JStr ''clawdbot-sandbox''),
                         (''gateway_port'', JNum CLAWDBOT_PORT)] 200), s)
      else if under_debug (pathname req)
      then (if \<not> debugEnabled env
            then (Inr (c_json [(''error'', JStr ''Debug routes are disabled'')] 404), s)
            else after_gate sb dbg env req s)
      else proxy_handler sb env req s)"

section \<open>Reading traces\<close>

text \<open>
  Classifiers of events, and the trace with the console output left out: the
  sequence of calls made on the registry, the processes and the proxy.
\<close>

fun is_console :: "event \<Rightarrow> bool" where
  "is_console (Console _ _) = True"
| "is_console _ = False"

fun is_kill :: "event \<Rightarrow> bool" where
  "is_kill (Kill _ _) = True"
| "is_kill _ = False"

fun is_start :: "event \<Rightarrow> bool" where
  "is_start (StartProcess _ _ _) = True"
| "is_start _ = False"

fun is_forward :: "event \<Rightarrow> bool" where
  "is_forward (WsConnect _ _ _) = True"
| "is_forward (ContainerFetch _ _ _) = True"
| "is_forward _ = False"

definition calls :: "event list \<Rightarrow> event list" where
  "calls t = filter (\<lambda>e. \<not> is_console e) t"

text \<open>
  The readiness probe as the module issues it everywhere: the service port,
  a TCP connect, the full startup timeout. The fixed startup command, the three
  lines printed before a start, and the \<^verbatim>\<open>env\<close> option of the start
  call: \<^verbatim>\<open>Object.keys(envVars).length > 0 ? envVars : undefined\<close>.
\<close>

abbreviation full_probe :: "proc \<Rightarrow> thrown + unit \<Rightarrow> event" where
  "full_probe p r \<equiv> WaitForPort p CLAWDBOT_PORT \<lparr>mode = ''tcp'', timeout = STARTUP_TIMEOUT_MS\<rparr> r"

abbreviation start_command :: string where
  "start_command \<equiv> ''/usr/local/bin/start-clawdbot.sh''"

abbreviation start_banner :: "ClawdbotEnv \<Rightarrow> event list" where
  "start_banner env \<equiv>
     [Console Log [Str ''Starting new Clawdbot gateway...''],
      Console Log [Str ''Starting process with command:'', Str start_command],
      Console Log [Str ''Environment vars being passed:'', Keys (map fst (buildEnvVars env))]]"

definition start_env :: "ClawdbotEnv \<Rightarrow> (string \<times> string) list option" where
  "start_env env = (if buildEnvVars env = [] then None else Some (buildEnvVars env))"

text \<open>
  The recognized variables of the gateway environment: the eleven names the
  gateway may receive, each read from the binding of the same name.
  \<^verbatim>\<open>DEBUG_ROUTES_ENABLED\<close> is not one of them.
\<close>

definition recognized_var :: "ClawdbotEnv \<Rightarrow> string \<Rightarrow> string option" where
  "recognized_var env k =
     (if k = ''ANTHROPIC_API_KEY'' then ANTHROPIC_API_KEY env
      else if k = ''OPENAI_API_KEY'' then OPENAI_API_KEY env
      else if k = ''CLAWDBOT_GATEWAY_TOKEN'' then CLAWDBOT_GATEWAY_TOKEN env
      else if k = ''CLAWDBOT_DEV_MODE'' then CLAWDBOT_DEV_MODE env
      else if k = ''CLAWDBOT_BIND_MODE'' then CLAWDBOT_BIND_MODE env
      else if k = ''TELEGRAM_BOT_TOKEN'' then TELEGRAM_BOT_TOKEN env
      else if k = ''TELEGRAM_DM_POLICY'' then TELEGRAM_DM_POLICY env
      else if k = ''DISCORD_BOT_TOKEN'' then DISCORD_BOT_TOKEN env
      else if k = ''DISCORD_DM_POLICY'' then DISCORD_DM_POLICY env
      else if k = ''SLACK_BOT_TOKEN'' then SLACK_BOT_TOKEN env
      else if k = ''SLACK_APP_TOKEN'' then SLACK_APP_TOKEN env
      else None)"

text \<open>
  What an optional binding contributes to the assembled map: its value when
  defined and not empty, nothing otherwise.
\<close>

definition passed :: "string option \<Rightarrow> string option" where
  "passed v = (case v of None \<Rightarrow> None | Some s \<Rightarrow> if s = [] then None else Some s)"

section \<open>Scripted sandboxes\<close>

text \<open>
  Concrete sandboxes for the scenarios below: a script fixes the answer of
  every operation; the world is trivial. The proxy operations answer with a
  fixed response.
\<close>

record script =
  on_list :: "thrown + proc list"
  on_start :: "thrown + proc"
  on_wait :: "proc \<Rightarrow> thrown + unit"
  on_kill :: "thrown + unit"
  on_logs :: "thrown + logs"

definition scripted :: "script \<Rightarrow> unit sandbox" where
  "scripted sc =
     \<lparr>listProcesses = (\<lambda>w. (on_list sc, w)),
      startProcess = (\<lambda>cmd e w. (on_start sc, w)),
      waitForPort = (\<lambda>p port opts w. (on_wait sc p, w)),
      kill = (\<lambda>p w. (on_kill sc, w)),
      getLogs = (\<lambda>p w. (on_logs sc, w)),
      wsConnect = (\<lambda>req port w. (Inr \<lparr>status = 101, body = RawBody []\<rparr>, w)),
      containerFetch = (\<lambda>req port w. (Inr \<lparr>status = 200, body = RawBody ''ok''\<rparr>, w))\<rparr>"

definition old_proc :: proc where
  "old_proc = \<lparr>proc_id = ''old'', proc_command = ''/usr/local/bin/start-clawdbot.sh'',
               proc_status = ''running''\<rparr>"

definition new_proc :: proc where
  "new_proc = \<lparr>proc_id = ''new'', proc_command = ''/usr/local/bin/start-clawdbot.sh'',
               proc_status = ''starting''\<rparr>"

text \<open>
  \<open>fresh_timeout\<close>: no process yet, the start succeeds, the port never opens,
  the error stream reads \<open>boom\<close>. \<open>stuck\<close>: a running process whose port never
  opens and whose kill fails; its replacement comes up. \<open>registry_down\<close>: the
  registry cannot be queried; a started process comes up. \<open>oom\<close> and
  \<open>oom_raw\<close>: the probe of the fresh process rejects with a text naming an
  out-of-memory condition, thrown as an \<^verbatim>\<open>Error\<close> or as a bare value.
\<close>

definition fresh_timeout :: script where
  "fresh_timeout =
     \<lparr>on_list = Inr [], on_start = Inr new_proc,
      on_wait = (\<lambda>p. Inl (Error ''port 18789 not ready'')),
      on_kill = Inr (),
      on_logs = Inr \<lparr>stdout = [], stderr = ''boom''\<rparr>\<rparr>"

definition stuck :: script where
  "stuck =
     \<lparr>on_list = Inr [old_proc], on_start = Inr new_proc,
      on_wait = (\<lambda>p. if p = old_proc then Inl (Error ''port 18789 not ready'') else Inr ()),
      on_kill = Inl (Error ''no such process''),
      on_logs = Inr \<lparr>stdout = ''listening'', stderr = []\<rparr>\<rparr>"

definition registry_down :: script where
  "registry_down =
     \<lparr>on_list = Inl (Error ''sandbox unreachable''), on_start = Inr new_proc,
      on_wait = (\<lambda>p. Inr ()),
      on_kill = Inr (),
      on_logs = Inr \<lparr>stdout = ''listening'', stderr = []\<rparr>\<rparr>"

definition oom :: script where
  "oom =
     \<lparr>on_list = Inr [], on_start = Inr new_proc,
      on_wait = (\<lambda>p. Inl (Error ''process exited: OOM'')),
      on_kill = Inr (),
      on_logs = Inl (Error ''no logs'')\<rparr>"

definition oom_raw :: script where
  "oom_raw = oom\<lparr>on_wait := (\<lambda>p. Inl (NonError ''OOM''))\<rparr>"

definition no_env :: ClawdbotEnv where
  "no_env =
     \<lparr>ANTHROPIC_API_KEY = None, OPENAI_API_KEY = None, CLAWDBOT_GATEWAY_TOKEN = None,
      CLAWDBOT_DEV_MODE = None, CLAWDBOT_BIND_MODE = None, TELEGRAM_BOT_TOKEN = None,
      TELEGRAM_DM_POLICY = None, DISCORD_BOT_TOKEN = None, DISCORD_DM_POLICY = None,
      SLACK_BOT_TOKEN = None, SLACK_APP_TOKEN = None, DEBUG_ROUTES_ENABLED = None\<rparr>"

definition key_env :: ClawdbotEnv where
  "key_env = no_env\<lparr>ANTHROPIC_API_KEY := Some ''sk-test'', OPENAI_API_KEY := Some []\<rparr>"

definition gate_off_env :: ClawdbotEnv where
  "gate_off_env = no_env\<lparr>DEBUG_ROUTES_ENABLED := Some ''false''\<rparr>"

definition chat_request :: request where
  "chat_request =
     \<lparr>http_method = ''GET'', url = ''https://worker.example/chat?a=1'', pathname = ''/chat'',
      search = ''?a=1'', upgrade = None\<rparr>"

definition version_request :: request where
  "version_request =
     \<lparr>http_method = ''GET'', url = ''https://worker.example/debug/version'',
      pathname = ''/debug/version'', search = [], upgrade = None\<rparr>"

definition stub_routes :: "unit debug_routes" where
  "stub_routes =
     \<lparr>version_handler = (\<lambda>req s. (Inr (c_json [(''route'', JStr ''version'')] 200), s)),
      processes_handler = (\<lambda>req s. (Inr (c_json [(''route'', JStr ''processes'')] 200), s)),
      logs_handler = (\<lambda>req s. (Inr (c_json [(''route'', JStr ''logs'')] 200), s))\<rparr>"

section \<open>Auxiliary facts\<close>

lemmas do_defs = do_listProcesses_def do_startProcess_def do_waitForPort_def do_kill_def
  do_getLogs_def do_wsConnect_def do_containerFetch_def console_log_def console_error_def

lemmas fixture_defs = scripted_def old_proc_def new_proc_def fresh_timeout_def stuck_def
  registry_down_def oom_def no_env_def key_env_def oom_raw_def gate_off_env_def
  chat_request_def version_request_def stub_routes_def

lemmas run_defs = ensureClawdbotGateway_def findExistingClawdbotProcess_def
  start_new_gateway_def wait_ready_def startup_failed_def buildEnvVars_def assign_if_truthy_def
  CLAWDBOT_PORT_def STARTUP_TIMEOUT_MS_def Let_def

lemmas eval_defs = run_defs do_defs fixture_defs

subsection \<open>Each block extends the trace and never looks at it\<close>

lemma wait_ready_run:
  "\<exists>r w' evs. (\<forall>t. wait_ready sb p (w, t) = (r, (w', t @ evs))) \<and>
     (\<forall>ev\<in>set evs. \<not> is_kill ev \<and> \<not> is_start ev \<and> \<not> is_forward ev) \<and>
     (r = Inr () \<longrightarrow> full_probe p (Inr ()) \<in> set evs)"
proof (cases "waitForPort sb p CLAWDBOT_PORT \<lparr>mode = ''tcp'', timeout = STARTUP_TIMEOUT_MS\<rparr> w")
  case (Pair r1 w1)
  show ?thesis
  proof (cases r1)
    case (Inl e)
    with Pair show ?thesis
      by (simp add: wait_ready_def do_defs Let_def)
  next
    case (Inr u)
    obtain r2 w2 where gl: "getLogs sb p w1 = (r2, w2)" by fastforce
    show ?thesis
    proof (cases r2)
      case (Inl e)
      with Pair Inr gl show ?thesis
        by (simp add: wait_ready_def do_defs Let_def)
    next
      case (Inr lg)
      with Pair \<open>r1 = Inr u\<close> gl show ?thesis
        by (cases "stdout lg = []"; cases "stderr lg = []")
           (simp_all add: wait_ready_def do_defs Let_def)
    qed
  qed
qed

lemma startup_failed_run:
  "\<exists>w' evs. (\<forall>t. startup_failed sb p e (w, t) = (e, (w', t @ evs))) \<and>
     (\<forall>ev\<in>set evs. \<not> is_kill ev \<and> \<not> is_start ev \<and> \<not> is_forward ev)"
proof (cases "getLogs sb p w")
  case (Pair r1 w1)
  then show ?thesis
    by (cases r1) (simp_all add: startup_failed_def do_defs Let_def)
qed

lemma start_env_alt:
  "(if length (map fst (buildEnvVars env)) > 0 then Some (buildEnvVars env) else None) = start_env env"
  by (simp add: start_env_def)

lemma start_new_banner:
  "\<exists>r w' sr post.
     (\<forall>t. start_new_gateway sb env (w, t) =
            (r, (w', t @ start_banner env @ StartProcess start_command (start_env env) sr # post))) \<and>
     (\<forall>ev\<in>set post. \<not> is_kill ev \<and> \<not> is_start ev \<and> \<not> is_forward ev) \<and>
     (\<forall>q. r = Inr q \<longrightarrow> sr = Inr q \<and> full_probe q (Inr ()) \<in> set post)"
proof (cases "startProcess sb start_command (start_env env) w")
  case (Pair sr w1)
  show ?thesis
  proof (cases sr)
    case (Inl startErr)
    have "\<forall>t. start_new_gateway sb env (w, t) =
            (Inl startErr, (w1, t @ start_banner env @ StartProcess start_command (start_env env) sr #
               [Console Err [Str ''Failed to start process:'', Thrown startErr]]))"
      using Pair Inl unfolding start_new_gateway_def Let_def start_env_alt by (simp add: do_defs)
    then show ?thesis
      by (intro exI[of _ "Inl startErr"] exI[of _ w1] exI[of _ sr]
            exI[of _ "[Console Err [Str ''Failed to start process:'', Thrown startErr]]"]) simp
  next
    case (Inr process)
    let ?c = "Console Log [Str ''Process started with id:'', Str (proc_id process),
                           Str ''status:'', Str (proc_status process)]"
    obtain r2 w2 evs2 where
      wr: "\<forall>t. wait_ready sb process (w1, t) = (r2, (w2, t @ evs2))" and
      wr_quiet: "\<forall>ev\<in>set evs2. \<not> is_kill ev \<and> \<not> is_start ev \<and> \<not> is_forward ev" and
      wr_ok: "r2 = Inr () \<longrightarrow> full_probe process (Inr ()) \<in> set evs2"
      using wait_ready_run [of sb process w1] by blast
    show ?thesis
    proof (cases r2)
      case (Inr u)
      have "\<forall>t. start_new_gateway sb env (w, t) =
              (Inr process, (w2, t @ start_banner env @ StartProcess start_command (start_env env) sr # (?c # evs2)))"
        using Pair \<open>sr = Inr process\<close> Inr wr
        unfolding start_new_gateway_def Let_def start_env_alt by (simp add: do_defs)
      then show ?thesis
        using wr_quiet wr_ok Inr \<open>sr = Inr process\<close>
        by (intro exI[of _ "Inr process"] exI[of _ w2] exI[of _ sr]
              exI[of _ "?c # evs2"]) simp
    next
      case (Inl e)
      obtain w3 evs3 where
        sf: "\<forall>t. startup_failed sb process e (w2, t) = (e, (w3, t @ evs3))" and
        sf_quiet: "\<forall>ev\<in>set evs3. \<not> is_kill ev \<and> \<not> is_start ev \<and> \<not> is_forward ev"
        using startup_failed_run [of sb process e w2] by blast
      have "\<forall>t. start_new_gateway sb env (w, t) =
              (Inl e, (w3, t @ start_banner env @ StartProcess start_command (start_env env) sr # (?c # evs2 @ evs3)))"
        using Pair \<open>sr = Inr process\<close> Inl wr sf
        unfolding start_new_gateway_def Let_def start_env_alt by (simp add: do_defs)
      then show ?thesis
        using wr_quiet sf_quiet
        by (intro exI[of _ "Inl e"] exI[of _ w3] exI[of _ sr]
              exI[of _ "?c # evs2 @ evs3"]) auto
    qed
  qed
qed

lemma start_new_run:
  "\<exists>r w' pre sr post.
     (\<forall>t. start_new_gateway sb env (w, t) =
            (r, (w', t @ pre @ StartProcess start_command (start_env env) sr # post))) \<and>
     (\<forall>ev\<in>set pre. is_console ev) \<and>
     (\<forall>ev\<in>set post. \<not> is_kill ev \<and> \<not> is_start ev \<and> \<not> is_forward ev) \<and>
     (\<forall>q. r = Inr q \<longrightarrow> sr = Inr q \<and> full_probe q (Inr ()) \<in> set post)"
proof -
  obtain r w' sr post where
    "\<forall>t. start_new_gateway sb env (w, t) =
            (r, (w', t @ start_banner env @ StartProcess start_command (start_env env) sr # post))"
    "\<forall>ev\<in>set post. \<not> is_kill ev \<and> \<not> is_start ev \<and> \<not> is_forward ev"
    "\<forall>q. r = Inr q \<longrightarrow> sr = Inr q \<and> full_probe q (Inr ()) \<in> set post"
    using start_new_banner [of sb env w] by blast
  then show ?thesis
    by (intro exI[of _ r] exI[of _ w'] exI[of _ "start_banner env"] exI[of _ sr] exI[of _ post])
       simp
qed

lemma find_quiet:
  "\<exists>r w' evs. (\<forall>t. findExistingClawdbotProcess sb (w, t) = (r, (w', t @ evs))) \<and>
     (\<exists>lr. calls evs = [ListProcesses lr] \<and> (r \<noteq> None \<longrightarrow> (\<exists>ps. lr = Inr ps))) \<and>
     (\<forall>ev\<in>set evs. \<not> is_kill ev \<and> \<not> is_start ev \<and> \<not> is_forward ev)"
proof (cases "listProcesses sb w")
  case (Pair lr w1)
  then show ?thesis
    by (cases lr) (simp_all add: findExistingClawdbotProcess_def do_defs calls_def)
qed

subsection \<open>The three ways through the supervisor\<close>

lemma ensure_none:
  assumes "findExistingClawdbotProcess sb s = (None, s1)"
  shows "ensureClawdbotGateway sb env s = start_new_gateway sb env s1"
  using assms by (simp add: ensureClawdbotGateway_def)

lemma ensure_reachable:
  assumes "findExistingClawdbotProcess sb s = (Some p, (w1, t1))"
      and "waitForPort sb p CLAWDBOT_PORT \<lparr>mode = ''tcp'', timeout = STARTUP_TIMEOUT_MS\<rparr> w1 = (Inr u, w2)"
  shows "ensureClawdbotGateway sb env s =
           (Inr p, (w2, t1 @
              [Console Log [Str ''Found existing Clawdbot process:'', Str (proc_id p),
                            Str ''status:'', Str (proc_status p)],
               Console Log [Str ''Waiting for Clawdbot gateway on port'', Num CLAWDBOT_PORT,
                            Str ''timeout:'', Num STARTUP_TIMEOUT_MS],
               full_probe p (Inr ()),
               Console Log [Str ''Clawdbot gateway is reachable'']]))"
  using assms by (simp add: ensureClawdbotGateway_def do_defs Let_def)

lemma ensure_stuck:
  assumes "findExistingClawdbotProcess sb s = (Some p, (w1, t1))"
      and "waitForPort sb p CLAWDBOT_PORT \<lparr>mode = ''tcp'', timeout = STARTUP_TIMEOUT_MS\<rparr> w1 = (Inl e, w2)"
      and "kill sb p w2 = (kr, w3)"
  shows "ensureClawdbotGateway sb env s =
           start_new_gateway sb env (w3, t1 @
              [Console Log [Str ''Found existing Clawdbot process:'', Str (proc_id p),
                            Str ''status:'', Str (proc_status p)],
               Console Log [Str ''Waiting for Clawdbot gateway on port'', Num CLAWDBOT_PORT,
                            Str ''timeout:'', Num STARTUP_TIMEOUT_MS],
               full_probe p (Inl e),
               Console Log [Str ''Existing process not reachable after full timeout, killing and restarting...''],
               Kill p kr] @
              (case kr of Inl killError \<Rightarrow> [Console Log [Str ''Failed to kill process:'', Thrown killError]]
               | Inr _ \<Rightarrow> []))"
  using assms by (cases kr) (simp_all add: ensureClawdbotGateway_def do_defs Let_def)

lemma calls_mem: "ev \<in> set t \<Longrightarrow> \<not> is_console ev \<Longrightarrow> ev \<in> set (calls t)"
  by (simp add: calls_def)

lemma calls_subset: "ev \<in> set (calls t) \<Longrightarrow> ev \<in> set t"
  by (simp add: calls_def)

lemma calls_append: "calls (xs @ ys) = calls xs @ calls ys"
  by (simp add: calls_def)

lemma calls_consoles: "\<forall>ev\<in>set m. is_console ev \<Longrightarrow> calls m = []"
  by (simp add: calls_def)

lemma console_quiet: "is_console ev \<Longrightarrow> \<not> is_kill ev \<and> \<not> is_start ev \<and> \<not> is_forward ev"
  by (cases ev) simp_all

lemma calls_singleton_quiet:
  assumes "calls h = [ListProcesses lr]" and "ev \<in> set h"
  shows "\<not> is_kill ev \<and> \<not> is_start ev \<and> \<not> is_forward ev"
proof (cases "is_console ev")
  case True
  then show ?thesis by (cases ev) simp_all
next
  case False
  with assms have "ev = ListProcesses lr" using calls_mem [of ev h] by simp
  then show ?thesis by simp
qed

lemma calls_pair_quiet:
  assumes "calls h = [ListProcesses lr, WaitForPort p port opts r]" and "ev \<in> set h"
  shows "\<not> is_kill ev \<and> \<not> is_start ev \<and> \<not> is_forward ev"
proof (cases "is_console ev")
  case True
  then show ?thesis by (cases ev) simp_all
next
  case False
  with assms have "ev = ListProcesses lr \<or> ev = WaitForPort p port opts r"
    using calls_mem [of ev h] by simp
  then show ?thesis by auto
qed

lemma first_split:
  assumes "\<forall>x\<in>set A. \<not> P x" and "P k" and "P k'" and "A @ k # B = pre @ k' # post"
      and "\<forall>x\<in>set B. \<not> P x"
  shows "pre = A \<and> k' = k \<and> post = B"
  using assms
proof (induction A arbitrary: pre)
  case Nil
  then show ?case by (cases pre) auto
next
  case (Cons a A)
  then show ?case by (cases pre) auto
qed

text \<open>
  Every run of \<^verbatim>\<open>ensureClawdbotGateway\<close> has one of three shapes: a fresh start
  after a listing, the reuse of a process whose probe succeeded, or the kill of a
  process whose probe failed followed by a start.
\<close>

lemma ensure_cases:
  obtains
    (fresh) res w' h sr post lr where
      "ensureClawdbotGateway sb env (w, []) =
         (res, (w', h @ StartProcess start_command (start_env env) sr # post))"
      "calls h = [ListProcesses lr]"
      "\<forall>ev\<in>set post. \<not> is_kill ev \<and> \<not> is_start ev \<and> \<not> is_forward ev"
      "\<forall>q. res = Inr q \<longrightarrow> sr = Inr q \<and> full_probe q (Inr ()) \<in> set post"
  | (reuse) p w' t ps where
      "ensureClawdbotGateway sb env (w, []) = (Inr p, (w', t))"
      "calls t = [ListProcesses (Inr ps), full_probe p (Inr ())]"
  | (restart) res w' h p kr m sr post ps e where
      "ensureClawdbotGateway sb env (w, []) =
         (res, (w', h @ Kill p kr # m @ StartProcess start_command (start_env env) sr # post))"
      "calls h = [ListProcesses (Inr ps), full_probe p (Inl e)]"
      "\<forall>ev\<in>set m. is_console ev"
      "\<forall>ev\<in>set post. \<not> is_kill ev \<and> \<not> is_start ev \<and> \<not> is_forward ev"
      "\<forall>q. res = Inr q \<longrightarrow> sr = Inr q \<and> full_probe q (Inr ()) \<in> set post"
proof -
  obtain r w1 evs lr where
    fr: "\<forall>t. findExistingClawdbotProcess sb (w, t) = (r, (w1, t @ evs))" and
    fc: "calls evs = [ListProcesses lr]" and
    fl: "r \<noteq> None \<longrightarrow> (\<exists>ps. lr = Inr ps)"
    using find_quiet [of sb w] by blast
  have f0: "findExistingClawdbotProcess sb (w, []) = (r, (w1, evs))"
    using fr by simp
  show thesis
  proof (cases r)
    case None
    obtain r' w'' pre sr post where
      sn: "\<forall>t. start_new_gateway sb env (w1, t) =
             (r', (w'', t @ pre @ StartProcess start_command (start_env env) sr # post))" and
      sp: "\<forall>ev\<in>set pre. is_console ev" and
      sq: "\<forall>ev\<in>set post. \<not> is_kill ev \<and> \<not> is_start ev \<and> \<not> is_forward ev" and
      sk: "\<forall>q. r' = Inr q \<longrightarrow> sr = Inr q \<and> full_probe q (Inr ()) \<in> set post"
      using start_new_run [of sb env w1] by blast
    have "ensureClawdbotGateway sb env (w, []) =
            (r', (w'', (evs @ pre) @ StartProcess start_command (start_env env) sr # post))"
      using ensure_none [of sb "(w, [])" "(w1, evs)" env] f0 None sn by simp
    moreover have "calls (evs @ pre) = [ListProcesses lr]"
      using fc sp by (simp add: calls_append calls_consoles)
    ultimately show thesis using sq sk by (rule fresh)
  next
    case (Some p)
    then obtain ps where lr: "lr = Inr ps" using fl by auto
    obtain wr w2 where wp:
      "waitForPort sb p CLAWDBOT_PORT \<lparr>mode = ''tcp'', timeout = STARTUP_TIMEOUT_MS\<rparr> w1 = (wr, w2)"
      by fastforce
    have f1: "findExistingClawdbotProcess sb (w, []) = (Some p, (w1, evs))"
      using f0 Some by simp
    show thesis
    proof (cases wr)
      case (Inr u)
      show thesis
      proof (rule reuse)
        show "ensureClawdbotGateway sb env (w, []) = (Inr p, (w2, evs @
              [Console Log [Str ''Found existing Clawdbot process:'', Str (proc_id p),
                            Str ''status:'', Str (proc_status p)],
               Console Log [Str ''Waiting for Clawdbot gateway on port'', Num CLAWDBOT_PORT,
                            Str ''timeout:'', Num STARTUP_TIMEOUT_MS],
               full_probe p (Inr ()),
               Console Log [Str ''Clawdbot gateway is reachable'']]))"
          using ensure_reachable [OF f1, of u w2 env] wp Inr by simp
        show "calls (evs @
              [Console Log [Str ''Found existing Clawdbot process:'', Str (proc_id p),
                            Str ''status:'', Str (proc_status p)],
               Console Log [Str ''Waiting for Clawdbot gateway on port'', Num CLAWDBOT_PORT,
                            Str ''timeout:'', Num STARTUP_TIMEOUT_MS],
               full_probe p (Inr ()),
               Console Log [Str ''Clawdbot gateway is reachable'']]) =
              [ListProcesses (Inr ps), full_probe p (Inr ())]"
          using fc lr by (simp add: calls_append) (simp add: calls_def)
      qed
    next
      case (Inl e)
      obtain kr w3 where kl: "kill sb p w2 = (kr, w3)" by fastforce
      let ?h = "evs @
              [Console Log [Str ''Found existing Clawdbot process:'', Str (proc_id p),
                            Str ''status:'', Str (proc_status p)],
               Console Log [Str ''Waiting for Clawdbot gateway on port'', Num CLAWDBOT_PORT,
                            Str ''timeout:'', Num STARTUP_TIMEOUT_MS],
               full_probe p (Inl e),
               Console Log [Str ''Existing process not reachable after full timeout, killing and restarting...'']]"
      let ?m = "case kr of Inl killError \<Rightarrow> [Console Log [Str ''Failed to kill process:'', Thrown killError]]
               | Inr _ \<Rightarrow> []"
      obtain r' w'' pre sr post where
        sn: "\<forall>t. start_new_gateway sb env (w3, t) =
               (r', (w'', t @ pre @ StartProcess start_command (start_env env) sr # post))" and
        sp: "\<forall>ev\<in>set pre. is_console ev" and
        sq: "\<forall>ev\<in>set post. \<not> is_kill ev \<and> \<not> is_start ev \<and> \<not> is_forward ev" and
        sk: "\<forall>q. r' = Inr q \<longrightarrow> sr = Inr q \<and> full_probe q (Inr ()) \<in> set post"
        using start_new_run [of sb env w3] by blast
      have "ensureClawdbotGateway sb env (w, []) =
              (r', (w'', ?h @ Kill p kr # (?m @ pre) @ StartProcess start_command (start_env env) sr # post))"
        using ensure_stuck [OF f1, of e w2 kr w3 env] wp Inl kl sn by simp
      moreover have "calls ?h = [ListProcesses (Inr ps), full_probe p (Inl e)]"
        using fc lr by (simp add: calls_append) (simp add: calls_def)
      moreover have "\<forall>ev\<in>set (?m @ pre). is_console ev"
        using sp by (cases kr) auto
      ultimately show thesis using sq sk by (rule restart)
    qed
  qed
qed

lemma ensure_probe_and_quiet:
  "(\<forall>p. fst (ensureClawdbotGateway sb env (w, [])) = Inr p \<longrightarrow>
        full_probe p (Inr ()) \<in> set (snd (snd (ensureClawdbotGateway sb env (w, []))))) \<and>
   (\<forall>ev\<in>set (snd (snd (ensureClawdbotGateway sb env (w, [])))). \<not> is_forward ev)"
proof (cases rule: ensure_cases [of sb env w])
  case (fresh res w' h sr post lr)
  then show ?thesis using calls_singleton_quiet [of h lr] by auto
next
  case (reuse p w' t ps)
  have "full_probe p (Inr ()) \<in> set (calls t)" using reuse(2) by simp
  then have "full_probe p (Inr ()) \<in> set t" by (rule calls_subset)
  then show ?thesis using reuse calls_pair_quiet [of t "Inr ps" p CLAWDBOT_PORT _ "Inr ()"] by auto
next
  case (restart res w' h p kr m sr post ps e)
  then show ?thesis
    using calls_pair_quiet [of h "Inr ps" p CLAWDBOT_PORT _ "Inl e"] console_quiet by auto
qed

lemma start_events:
  assumes "StartProcess c a r \<in> set (snd (snd (ensureClawdbotGateway sb env (w, []))))"
  shows "c = start_command \<and> a = start_env env"
proof (cases rule: ensure_cases [of sb env w])
  case (fresh res w' h sr post lr)
  then show ?thesis using assms calls_singleton_quiet [OF fresh(2), of "StartProcess c a r"] by auto
next
  case (reuse p w' t ps)
  then show ?thesis using assms calls_pair_quiet [OF reuse(2), of "StartProcess c a r"] by auto
next
  case (restart res w' h p kr m sr post ps e)
  then show ?thesis
    using assms calls_pair_quiet [OF restart(2), of "StartProcess c a r"]
      console_quiet [of "StartProcess c a r"] by auto
qed

lemma failed_ensure_starts_once:
  assumes "ensureClawdbotGateway sb env (w, []) = (Inl err, (w', t))"
  shows "length (filter is_start t) = 1"
proof (cases rule: ensure_cases [of sb env w])
  case (fresh res w2 h sr post lr)
  have "filter is_start h = []" "filter is_start post = []"
    using calls_singleton_quiet [OF fresh(2)] fresh(3) by (simp_all add: filter_empty_conv)
  moreover have "t = h @ StartProcess start_command (start_env env) sr # post"
    using assms fresh(1) by simp
  ultimately show ?thesis by simp
next
  case (reuse p w2 t' ps)
  then show ?thesis using assms by simp
next
  case (restart res w2 h p kr m sr post ps e)
  have "filter is_start h = []" "filter is_start m = []" "filter is_start post = []"
    using calls_pair_quiet [OF restart(2)] restart(3,4) console_quiet
    by (simp_all add: filter_empty_conv)
  moreover have "t = h @ Kill p kr # m @ StartProcess start_command (start_env env) sr # post"
    using assms restart(1) by simp
  ultimately show ?thesis by simp
qed

lemma proxy_handler_forwards:
  assumes "ensureClawdbotGateway sb env s = (Inr p, (w', t))"
  shows "\<exists>cs fw. snd (snd (proxy_handler sb env req s)) = t @ cs @ [fw] \<and>
           (\<forall>c\<in>set cs. \<not> is_forward c) \<and> is_forward fw"
proof (cases "map_option toLowerCase (upgrade req) = Some ''websocket''")
  case True
  have "snd (snd (proxy_handler sb env req s)) =
          t @ [Console Log [Str ''Proxying WebSocket connection to Clawdbot''],
               Console Log [Str ''WebSocket URL:'', Str (url req)],
               Console Log [Str ''WebSocket search params:'', Str (search req)]] @
              [WsConnect req CLAWDBOT_PORT (fst (wsConnect sb req CLAWDBOT_PORT w'))]"
    using assms True
    by (simp add: proxy_handler_def do_defs Let_def split: prod.splits del: map_option_eq_Some)
  then show ?thesis
    by (intro exI[of _ "[Console Log [Str ''Proxying WebSocket connection to Clawdbot''],
               Console Log [Str ''WebSocket URL:'', Str (url req)],
               Console Log [Str ''WebSocket search params:'', Str (search req)]]"]
          exI[of _ "WsConnect req CLAWDBOT_PORT (fst (wsConnect sb req CLAWDBOT_PORT w'))"]) simp
next
  case False
  have "snd (snd (proxy_handler sb env req s)) =
          t @ [Console Log [Str ''Proxying HTTP request:'', Str (pathname req @ search req)]] @
              [ContainerFetch req CLAWDBOT_PORT (fst (containerFetch sb req CLAWDBOT_PORT w'))]"
    using assms False
    by (simp add: proxy_handler_def do_defs Let_def split: prod.splits del: map_option_eq_Some)
  then show ?thesis
    by (intro exI[of _ "[Console Log [Str ''Proxying HTTP request:'', Str (pathname req @ search req)]]"]
          exI[of _ "ContainerFetch req CLAWDBOT_PORT (fst (containerFetch sb req CLAWDBOT_PORT w'))"]) simp
qed

subsection \<open>The assembled environment\<close>

lemma map_of_assign:
  "map_of (assign_if_truthy k v al) k' =
     (if k' = k \<and> passed v \<noteq> None then passed v else map_of al k')"
  by (simp add: assign_if_truthy_def passed_def update_conv' split: option.splits)

lemma distinct_assign:
  "distinct (map fst al) \<Longrightarrow> distinct (map fst (assign_if_truthy k v al))"
  by (simp add: assign_if_truthy_def distinct_update split: option.splits)

lemma buildEnvVars_passed:
  "map_of (buildEnvVars env) k = passed (recognized_var env k)"
  unfolding buildEnvVars_def Let_def recognized_var_def
  by (simp add: map_of_assign passed_def split: option.splits)

lemma buildEnvVars_lookup:
  "map_of (buildEnvVars env) k =
     (case recognized_var env k of None \<Rightarrow> None | Some v \<Rightarrow> if v = [] then None else Some v)"
  by (simp add: buildEnvVars_passed passed_def)

lemma buildEnvVars_distinct: "distinct (map fst (buildEnvVars env))"
  unfolding buildEnvVars_def Let_def
  by (intro distinct_assign) simp

section \<open>The claims\<close>

subsection \<open>C1: the failure raised when a fresh gateway does not come up\<close>

text \<open>
  Claim C1 asks that, when the probe of a freshly started process times out, the
  failure carries the captured error stream (or \<open>(empty)\<close>), and that the original
  timeout error is raised only when the logs cannot be fetched. The module builds
  that failure, but throws it inside the \<^verbatim>\<open>try\<close> whose \<^verbatim>\<open>catch\<close> rethrows
  the original error. Run on \<open>fresh_timeout\<close>, where the logs are fetched and the
  error stream reads \<open>boom\<close>: the module raises the probe's own error; the failure
  that embeds \<open>boom\<close> is only printed as the argument of
  \<^verbatim>\<open>Failed to get logs:\<close>.
\<close>

theorem timeout_error_drops_stderr:
  "ensureClawdbotGateway (scripted fresh_timeout) no_env ((), []) =
     (Inl (Error ''port 18789 not ready''),
      ((), [ListProcesses (Inr []),
            Console Log [Str ''Starting new Clawdbot gateway...''],
            Console Log [Str ''Starting process with command:'', Str start_command],
            Console Log [Str ''Environment vars being passed:'', Keys []],
            StartProcess start_command None (Inr new_proc),
            Console Log [Str ''Process started with id:'', Str ''new'', Str ''status:'', Str ''starting''],
            Console Log [Str ''Waiting for Clawdbot gateway to be ready on port'', Num 18789],
            WaitForPort new_proc 18789 \<lparr>mode = ''tcp'', timeout = 180000\<rparr> (Inl (Error ''port 18789 not ready'')),
            Console Err [Str ''waitForPort failed:'', Thrown (Error ''port 18789 not ready'')],
            GetLogs new_proc (Inr \<lparr>stdout = [], stderr = ''boom''\<rparr>),
            Console Err [Str ''Clawdbot startup failed. Stderr:'', Str ''boom''],
            Console Err [Str ''Clawdbot startup failed. Stdout:'', Str []],
            Console Err [Str ''Failed to get logs:'',
                         Thrown (Error ''Clawdbot gateway failed to start. Stderr: boom'')]]))"
  by (simp add: run_defs do_defs scripted_def fresh_timeout_def no_env_def new_proc_def)

subsection \<open>C2: a stuck process is killed and replaced once\<close>

text \<open>
  Claim C2: when the registry yields a gateway process (reported running or
  starting) and its probe with the full timeout rejects, the calls made are, in
  this order, the listing, that probe, a kill of that process and a single start
  with the fixed command; no further kill or start follows; and if the module
  returns a process, it is the one the start call answered with, and a probe of
  it succeeded after the start.
\<close>

theorem stuck_process_replaced:
  assumes "findExistingClawdbotProcess sb (w, []) = (Some p, (w1, t1))"
      and "fst (waitForPort sb p CLAWDBOT_PORT \<lparr>mode = ''tcp'', timeout = STARTUP_TIMEOUT_MS\<rparr> w1) = Inl e"
  shows "\<exists>ps kr sr rest.
           calls (snd (snd (ensureClawdbotGateway sb env (w, [])))) =
             ListProcesses (Inr ps) # full_probe p (Inl e) # Kill p kr #
             StartProcess start_command (if buildEnvVars env = [] then None else Some (buildEnvVars env)) sr #
             rest \<and>
           (\<forall>ev\<in>set rest. \<not> is_kill ev \<and> \<not> is_start ev) \<and>
           (\<forall>q. fst (ensureClawdbotGateway sb env (w, [])) = Inr q \<longrightarrow>
                  sr = Inr q \<and> full_probe q (Inr ()) \<in> set rest)"
proof -
  obtain w2 where wp:
    "waitForPort sb p CLAWDBOT_PORT \<lparr>mode = ''tcp'', timeout = STARTUP_TIMEOUT_MS\<rparr> w1 = (Inl e, w2)"
    using assms(2) by (metis prod.collapse)
  obtain kr w3 where kl: "kill sb p w2 = (kr, w3)" by fastforce
  obtain r0 w0 evs lr where
    fr: "\<forall>t. findExistingClawdbotProcess sb (w, t) = (r0, (w0, t @ evs))" and
    fc: "calls evs = [ListProcesses lr]" and
    fl: "r0 \<noteq> None \<longrightarrow> (\<exists>ps. lr = Inr ps)"
    using find_quiet [of sb w] by blast
  have "t1 = evs" "r0 = Some p" using fr assms(1) by simp_all
  then obtain ps where t1: "calls t1 = [ListProcesses (Inr ps)]" using fc fl by auto
  let ?m = "case kr of Inl killError \<Rightarrow> [Console Log [Str ''Failed to kill process:'', Thrown killError]]
               | Inr _ \<Rightarrow> []"
  let ?h = "t1 @
              [Console Log [Str ''Found existing Clawdbot process:'', Str (proc_id p),
                            Str ''status:'', Str (proc_status p)],
               Console Log [Str ''Waiting for Clawdbot gateway on port'', Num CLAWDBOT_PORT,
                            Str ''timeout:'', Num STARTUP_TIMEOUT_MS],
               full_probe p (Inl e),
               Console Log [Str ''Existing process not reachable after full timeout, killing and restarting...''],
               Kill p kr] @ ?m"
  obtain r' w'' pre sr post where
    sn: "\<forall>t. start_new_gateway sb env (w3, t) =
           (r', (w'', t @ pre @ StartProcess start_command (start_env env) sr # post))" and
    sp: "\<forall>ev\<in>set pre. is_console ev" and
    sq: "\<forall>ev\<in>set post. \<not> is_kill ev \<and> \<not> is_start ev \<and> \<not> is_forward ev" and
    sk: "\<forall>q. r' = Inr q \<longrightarrow> sr = Inr q \<and> full_probe q (Inr ()) \<in> set post"
    using start_new_run [of sb env w3] by blast
  have run: "ensureClawdbotGateway sb env (w, []) =
          (r', (w'', ?h @ pre @ StartProcess start_command (start_env env) sr # post))"
    using ensure_stuck [OF assms(1) wp kl, of env] sn by simp
  have m: "calls ?m = []" by (cases kr) (simp_all add: calls_def)
  have c: "calls (?h @ pre @ StartProcess start_command (start_env env) sr # post) =
      ListProcesses (Inr ps) # full_probe p (Inl e) # Kill p kr #
      StartProcess start_command (start_env env) sr # calls post"
    using sp t1 m by (simp add: calls_append calls_consoles) (simp add: calls_def)
  have q: "\<forall>ev\<in>set (calls post). \<not> is_kill ev \<and> \<not> is_start ev"
    using sq calls_subset by blast
  have k: "\<forall>q. r' = Inr q \<longrightarrow> sr = Inr q \<and> full_probe q (Inr ()) \<in> set (calls post)"
    using sk by (simp add: calls_mem)
  show ?thesis
    using run c q k by (simp add: start_env_def)
qed

text \<open>
  The theorem at \<open>stuck\<close>: the running process \<open>old\<close> is killed, \<open>new\<close> is
  started and returned, and it is not the original.
\<close>

theorem stuck_process_replaced_witness:
  "findExistingClawdbotProcess (scripted stuck) ((), []) =
     (Some old_proc, ((), [ListProcesses (Inr [old_proc])])) \<and>
   fst (waitForPort (scripted stuck) old_proc CLAWDBOT_PORT
          \<lparr>mode = ''tcp'', timeout = STARTUP_TIMEOUT_MS\<rparr> ()) = Inl (Error ''port 18789 not ready'') \<and>
   fst (ensureClawdbotGateway (scripted stuck) no_env ((), [])) = Inr new_proc \<and>
   new_proc \<noteq> old_proc \<and>
   (\<exists>ps kr rest.
      calls (snd (snd (ensureClawdbotGateway (scripted stuck) no_env ((), [])))) =
        ListProcesses (Inr ps) # full_probe old_proc (Inl (Error ''port 18789 not ready'')) #
        Kill old_proc kr # StartProcess start_command None (Inr new_proc) # rest \<and>
      (\<forall>ev\<in>set rest. \<not> is_kill ev \<and> \<not> is_start ev) \<and>
      full_probe new_proc (Inr ()) \<in> set rest)"
proof -
  have f: "findExistingClawdbotProcess (scripted stuck) ((), []) =
             (Some old_proc, ((), [ListProcesses (Inr [old_proc])]))"
    by (simp add: eval_defs)
  have p: "fst (waitForPort (scripted stuck) old_proc CLAWDBOT_PORT
                  \<lparr>mode = ''tcp'', timeout = STARTUP_TIMEOUT_MS\<rparr> ()) = Inl (Error ''port 18789 not ready'')"
    by (simp add: eval_defs)
  have r: "fst (ensureClawdbotGateway (scripted stuck) no_env ((), [])) = Inr new_proc"
    by (simp add: eval_defs)
  have e: "buildEnvVars no_env = []"
    by (simp add: eval_defs)
  have n: "new_proc \<noteq> old_proc"
    by (simp add: old_proc_def new_proc_def)
  from stuck_process_replaced [OF f p, of no_env] f p r e n show ?thesis
    by auto
qed

subsection \<open>C3: nothing is forwarded before a probe succeeded\<close>

text \<open>
  Claim C3: whenever \<^verbatim>\<open>ensureClawdbotGateway\<close> returns a process, the trace of that
  run holds a successful probe of that very process on the service port; and
  whenever the catch-all handler reaches \<^verbatim>\<open>wsConnect\<close> or
  \<^verbatim>\<open>containerFetch\<close>, the supervisor has returned a process and the successful
  probe of it precedes the forwarding call.
\<close>

theorem forwarded_only_after_ready_probe:
  "(\<forall>p. fst (ensureClawdbotGateway sb env (w, [])) = Inr p \<longrightarrow>
        full_probe p (Inr ()) \<in> set (snd (snd (ensureClawdbotGateway sb env (w, []))))) \<and>
   (\<forall>pre ev post. snd (snd (proxy_handler sb env req (w, []))) = pre @ ev # post \<and> is_forward ev \<longrightarrow>
        (\<exists>p. fst (ensureClawdbotGateway sb env (w, [])) = Inr p \<and> full_probe p (Inr ()) \<in> set pre))"
proof -
  obtain res w' t where run: "ensureClawdbotGateway sb env (w, []) = (res, (w', t))"
    by (metis surj_pair)
  have ens: "(\<forall>p. res = Inr p \<longrightarrow> full_probe p (Inr ()) \<in> set t) \<and> (\<forall>ev\<in>set t. \<not> is_forward ev)"
    using ensure_probe_and_quiet [of sb env w] run by simp
  have second: "\<forall>pre ev post. snd (snd (proxy_handler sb env req (w, []))) = pre @ ev # post \<and> is_forward ev \<longrightarrow>
        (\<exists>p. fst (ensureClawdbotGateway sb env (w, [])) = Inr p \<and> full_probe p (Inr ()) \<in> set pre)"
  proof (intro allI impI)
    fix pre ev post
    assume h: "snd (snd (proxy_handler sb env req (w, []))) = pre @ ev # post \<and> is_forward ev"
    show "\<exists>p. fst (ensureClawdbotGateway sb env (w, [])) = Inr p \<and> full_probe p (Inr ()) \<in> set pre"
    proof (cases res)
      case (Inl err)
      then have "snd (snd (proxy_handler sb env req (w, []))) =
                   t @ [Console Err [Str ''Failed to start Clawdbot:'', Thrown err]]"
        using run by (simp add: proxy_handler_def do_defs Let_def)
      with h have "ev \<in> set (t @ [Console Err [Str ''Failed to start Clawdbot:'', Thrown err]])"
        by (metis in_set_conv_decomp)
      with h ens show ?thesis by auto
    next
      case (Inr p)
      then have probe: "full_probe p (Inr ()) \<in> set t" using ens by blast
      obtain cs fw where tr: "snd (snd (proxy_handler sb env req (w, []))) = (t @ cs) @ fw # []"
        and cs: "\<forall>c\<in>set cs. \<not> is_forward c" and fw: "is_forward fw"
        using proxy_handler_forwards [OF run [unfolded Inr], of req] by auto
      have nf: "\<forall>x\<in>set (t @ cs). \<not> is_forward x" using ens cs by auto
      have "pre = t @ cs"
        using first_split [where P = is_forward and A = "t @ cs" and k = fw and B = "[]"
                             and pre = pre and k' = ev and post = post] nf fw tr h
        by simp
      with probe Inr run show ?thesis by simp
    qed
  qed
  from ens run second show ?thesis by simp
qed

text \<open>
  The theorem at \<open>registry_down\<close>: the handler's last event is the forwarding
  call, and the successful probe of \<open>new\<close> lies before it.
\<close>

theorem forwarded_only_after_ready_probe_witness:
  "fst (ensureClawdbotGateway (scripted registry_down) no_env ((), [])) = Inr new_proc \<and>
   full_probe new_proc (Inr ())
     \<in> set (snd (snd (ensureClawdbotGateway (scripted registry_down) no_env ((), [])))) \<and>
   is_forward (last (snd (snd (proxy_handler (scripted registry_down) no_env chat_request ((), []))))) \<and>
   full_probe new_proc (Inr ())
     \<in> set (butlast (snd (snd (proxy_handler (scripted registry_down) no_env chat_request ((), [])))))"
proof -
  let ?T = "snd (snd (proxy_handler (scripted registry_down) no_env chat_request ((), [])))"
  have r: "fst (ensureClawdbotGateway (scripted registry_down) no_env ((), [])) = Inr new_proc"
    by (simp add: eval_defs)
  have l: "?T \<noteq> [] \<and> is_forward (last ?T)"
    by (simp add: proxy_handler_def toLowerCase_def eval_defs)
  then have d: "?T = butlast ?T @ last ?T # []" by simp
  from forwarded_only_after_ready_probe
         [of "scripted registry_down" no_env "()" chat_request] r l d
  show ?thesis by (metis sum.inject(2))
qed

subsection \<open>C4: a registry failure counts as no process found\<close>

text \<open>
  Claim C4: when \<^verbatim>\<open>listProcesses\<close> rejects, the lookup prints the fault and
  answers \<open>null\<close>; the supervisor's outcome is that of a fresh start from the
  world the listing left, and the call that follows the failed listing is the
  start of a new process.
\<close>

theorem registry_failure_starts_fresh:
  assumes "listProcesses sb w = (Inl e, w1)"
  shows "findExistingClawdbotProcess sb (w, []) =
           (None, (w1, [ListProcesses (Inl e),
                        Console Log [Str ''Could not list processes:'', Thrown e]])) \<and>
         fst (ensureClawdbotGateway sb env (w, [])) = fst (start_new_gateway sb env (w1, [])) \<and>
         (\<exists>sr rest. calls (snd (snd (ensureClawdbotGateway sb env (w, [])))) =
            ListProcesses (Inl e) #
            StartProcess start_command (if buildEnvVars env = [] then None else Some (buildEnvVars env)) sr #
            rest)"
proof -
  let ?t1 = "[ListProcesses (Inl e), Console Log [Str ''Could not list processes:'', Thrown e]]"
  have f: "findExistingClawdbotProcess sb (w, []) = (None, (w1, ?t1))"
    using assms by (simp add: findExistingClawdbotProcess_def do_defs)
  obtain r' w'' pre sr post where
    sn: "\<forall>t. start_new_gateway sb env (w1, t) =
           (r', (w'', t @ pre @ StartProcess start_command (start_env env) sr # post))" and
    sp: "\<forall>ev\<in>set pre. is_console ev"
    using start_new_run [of sb env w1] by blast
  have run: "ensureClawdbotGateway sb env (w, []) =
          (r', (w'', ?t1 @ pre @ StartProcess start_command (start_env env) sr # post))"
    using ensure_none [OF f, of env] sn by simp
  have "fst (start_new_gateway sb env (w1, [])) = r'" using sn by simp
  moreover have "calls (?t1 @ pre @ StartProcess start_command (start_env env) sr # post) =
      ListProcesses (Inl e) # StartProcess start_command (start_env env) sr # calls post"
    using sp by (simp add: calls_append calls_consoles) (simp add: calls_def)
  ultimately show ?thesis using f run by (simp add: start_env_def)
qed

theorem registry_failure_starts_fresh_witness:
  "listProcesses (scripted registry_down) () = (Inl (Error ''sandbox unreachable''), ()) \<and>
   fst (findExistingClawdbotProcess (scripted registry_down) ((), [])) = None \<and>
   fst (ensureClawdbotGateway (scripted registry_down) no_env ((), [])) = Inr new_proc \<and>
   (\<exists>sr rest. calls (snd (snd (ensureClawdbotGateway (scripted registry_down) no_env ((), [])))) =
      ListProcesses (Inl (Error ''sandbox unreachable'')) # StartProcess start_command None sr # rest)"
proof -
  have l: "listProcesses (scripted registry_down) () = (Inl (Error ''sandbox unreachable''), ())"
    by (simp add: eval_defs)
  have r: "fst (start_new_gateway (scripted registry_down) no_env ((), [])) = Inr new_proc"
    by (simp add: eval_defs)
  have e: "buildEnvVars no_env = []"
    by (simp add: eval_defs)
  from registry_failure_starts_fresh [OF l, of no_env] l r e show ?thesis
    by simp
qed

subsection \<open>C5: the assembled gateway environment\<close>

text \<open>
  Claim C5: a pair \<open>(k, v)\<close> is in the assembled map exactly when \<open>k\<close> is a
  recognized variable bound to \<open>v\<close> and \<open>v\<close> is not empty; and every start call of
  the supervisor passes the map as the environment, or no environment at all
  when the map is empty (never an empty mapping).
\<close>

theorem gateway_environment_passthrough:
  "((k, v) \<in> set (buildEnvVars env) \<longleftrightarrow> recognized_var env k = Some v \<and> v \<noteq> []) \<and>
   (\<forall>c a r. StartProcess c a r \<in> set (snd (snd (ensureClawdbotGateway sb env (w, [])))) \<longrightarrow>
      a = (if buildEnvVars env = [] then None else Some (buildEnvVars env)))"
proof -
  have "(k, v) \<in> set (buildEnvVars env) \<longleftrightarrow> map_of (buildEnvVars env) k = Some v"
    using buildEnvVars_distinct [of env] by simp
  also have "\<dots> \<longleftrightarrow> recognized_var env k = Some v \<and> v \<noteq> []"
    by (auto simp: buildEnvVars_lookup split: option.splits if_splits)
  finally show ?thesis
    using start_events [of _ _ _ sb env w] by (auto simp: start_env_def)
qed

text \<open>
  The theorem at \<open>key_env\<close> (one key set, one bound to the empty string) and at
  the empty environment.
\<close>

theorem gateway_environment_passthrough_witness:
  "(''ANTHROPIC_API_KEY'', ''sk-test'') \<in> set (buildEnvVars key_env) \<and>
   recognized_var key_env ''OPENAI_API_KEY'' = Some [] \<and>
   (''OPENAI_API_KEY'', []) \<notin> set (buildEnvVars key_env) \<and>
   StartProcess start_command None (Inr new_proc)
     \<in> set (snd (snd (ensureClawdbotGateway (scripted registry_down) no_env ((), [])))) \<and>
   (if buildEnvVars no_env = [] then None else Some (buildEnvVars no_env)) = None"
proof -
  have a: "recognized_var key_env ''ANTHROPIC_API_KEY'' = Some ''sk-test''"
    by (simp add: recognized_var_def key_env_def no_env_def)
  have b: "recognized_var key_env ''OPENAI_API_KEY'' = Some []"
    by (simp add: recognized_var_def key_env_def no_env_def)
  have m: "StartProcess start_command None (Inr new_proc)
             \<in> set (snd (snd (ensureClawdbotGateway (scripted registry_down) no_env ((), []))))"
    by (simp add: eval_defs)
  have 1: "(''ANTHROPIC_API_KEY'', ''sk-test'') \<in> set (buildEnvVars key_env)"
    using gateway_environment_passthrough
            [of "''ANTHROPIC_API_KEY''" "''sk-test''" key_env "scripted registry_down" "()"] a
    by simp
  have 2: "(''OPENAI_API_KEY'', []) \<notin> set (buildEnvVars key_env)"
    using gateway_environment_passthrough
            [of "''OPENAI_API_KEY''" "[]" key_env "scripted registry_down" "()"]
    by simp
  have 3: "(if buildEnvVars no_env = [] then None else Some (buildEnvVars no_env)) = None"
    using gateway_environment_passthrough
            [of "''OPENAI_API_KEY''" "[]" no_env "scripted registry_down" "()",
             THEN conjunct2, rule_format, OF m]
    by simp
  from 1 b 2 m 3 show ?thesis by blast
qed

subsection \<open>C6: a kill only follows a failed full-timeout probe\<close>

text \<open>
  Claim C6: wherever a kill occurs in a run of the supervisor, the calls before
  it are exactly the listing and a probe of the killed process, issued with the
  full startup timeout, that rejected; in particular no probe has succeeded
  before the kill.
\<close>

theorem kill_only_after_failed_probe:
  assumes "snd (snd (ensureClawdbotGateway sb env (w, []))) = pre @ Kill p kr # post"
  shows "(\<exists>ps e. calls pre = [ListProcesses (Inr ps), full_probe p (Inl e)]) \<and>
         (\<forall>q port opts. WaitForPort q port opts (Inr ()) \<notin> set pre)"
proof (cases rule: ensure_cases [of sb env w])
  case (fresh res w' h sr post' lr)
  have "Kill p kr \<in> set (h @ StartProcess start_command (start_env env) sr # post')"
    using assms fresh(1) by simp
  then have False using fresh(3) calls_singleton_quiet [OF fresh(2), of "Kill p kr"] by auto
  then show ?thesis ..
next
  case (reuse p' w' t ps)
  have "Kill p kr \<in> set t" using assms reuse(1) by simp
  then have False using calls_pair_quiet [OF reuse(2), of "Kill p kr"] by simp
  then show ?thesis ..
next
  case (restart res w' h p' kr' m sr post' ps e)
  have hq: "\<forall>x\<in>set h. \<not> is_kill x" using calls_pair_quiet [OF restart(2)] by blast
  have bq: "\<forall>x\<in>set (m @ StartProcess start_command (start_env env) sr # post'). \<not> is_kill x"
    using restart(3,4) console_quiet by auto
  have eq: "h @ Kill p' kr' # (m @ StartProcess start_command (start_env env) sr # post') = pre @ Kill p kr # post"
    using assms restart(1) by simp
  have "pre = h \<and> Kill p kr = Kill p' kr'"
    using first_split [where P = is_kill and A = h and k = "Kill p' kr'" and k' = "Kill p kr"
                         and pre = pre and post = post, OF hq _ _ eq bq]
    by simp
  then have pre: "pre = h" and p: "p = p'" by simp_all
  have "\<forall>q port opts. WaitForPort q port opts (Inr ()) \<notin> set pre"
  proof (intro allI notI)
    fix q port opts
    assume "WaitForPort q port opts (Inr ()) \<in> set pre"
    then have "WaitForPort q port opts (Inr ()) \<in> set (calls h)"
      using pre by (simp add: calls_mem)
    then show False using restart(2) by simp
  qed
  then show ?thesis using restart(2) pre p by blast
qed

text \<open>
  The theorem at \<open>stuck\<close>, with the whole trace of the run split at the kill.
\<close>

theorem kill_only_after_failed_probe_witness:
  "snd (snd (ensureClawdbotGateway (scripted stuck) no_env ((), []))) =
     [ListProcesses (Inr [old_proc]),
      Console Log [Str ''Found existing Clawdbot process:'', Str ''old'', Str ''status:'', Str ''running''],
      Console Log [Str ''Waiting for Clawdbot gateway on port'', Num 18789, Str ''timeout:'', Num 180000],
      full_probe old_proc (Inl (Error ''port 18789 not ready'')),
      Console Log [Str ''Existing process not reachable after full timeout, killing and restarting...'']] @
     Kill old_proc (Inl (Error ''no such process'')) #
     [Console Log [Str ''Failed to kill process:'', Thrown (Error ''no such process'')],
      Console Log [Str ''Starting new Clawdbot gateway...''],
      Console Log [Str ''Starting process with command:'', Str start_command],
      Console Log [Str ''Environment vars being passed:'', Keys []],
      StartProcess start_command None (Inr new_proc),
      Console Log [Str ''Process started with id:'', Str ''new'', Str ''status:'', Str ''starting''],
      Console Log [Str ''Waiting for Clawdbot gateway to be ready on port'', Num 18789],
      full_probe new_proc (Inr ()),
      Console Log [Str ''Clawdbot gateway is ready!''],
      GetLogs new_proc (Inr \<lparr>stdout = ''listening'', stderr = []\<rparr>),
      Console Log [Str ''Clawdbot stdout:'', Str ''listening'']] \<and>
   (\<exists>ps e. calls
      [ListProcesses (Inr [old_proc]),
       Console Log [Str ''Found existing Clawdbot process:'', Str ''old'', Str ''status:'', Str ''running''],
       Console Log [Str ''Waiting for Clawdbot gateway on port'', Num 18789, Str ''timeout:'', Num 180000],
       full_probe old_proc (Inl (Error ''port 18789 not ready'')),
       Console Log [Str ''Existing process not reachable after full timeout, killing and restarting...'']] =
      [ListProcesses (Inr ps), full_probe old_proc (Inl e)])"
proof -
  have t: "snd (snd (ensureClawdbotGateway (scripted stuck) no_env ((), []))) =
     [ListProcesses (Inr [old_proc]),
      Console Log [Str ''Found existing Clawdbot process:'', Str ''old'', Str ''status:'', Str ''running''],
      Console Log [Str ''Waiting for Clawdbot gateway on port'', Num 18789, Str ''timeout:'', Num 180000],
      full_probe old_proc (Inl (Error ''port 18789 not ready'')),
      Console Log [Str ''Existing process not reachable after full timeout, killing and restarting...'']] @
     Kill old_proc (Inl (Error ''no such process'')) #
     [Console Log [Str ''Failed to kill process:'', Thrown (Error ''no such process'')],
      Console Log [Str ''Starting new Clawdbot gateway...''],
      Console Log [Str ''Starting process with command:'', Str start_command],
      Console Log [Str ''Environment vars being passed:'', Keys []],
      StartProcess start_command None (Inr new_proc),
      Console Log [Str ''Process started with id:'', Str ''new'', Str ''status:'', Str ''starting''],
      Console Log [Str ''Waiting for Clawdbot gateway to be ready on port'', Num 18789],
      full_probe new_proc (Inr ()),
      Console Log [Str ''Clawdbot gateway is ready!''],
      GetLogs new_proc (Inr \<lparr>stdout = ''listening'', stderr = []\<rparr>),
      Console Log [Str ''Clawdbot stdout:'', Str ''listening'']]"
    by (simp add: eval_defs)
  from kill_only_after_failed_probe [OF t] t show ?thesis by blast
qed

subsection \<open>C7: the response to a supervision failure\<close>

text \<open>
  Claim C7 says that the hint of the 503 response is derived by matching the
  captured diagnostic text. The handler decides the missing-credential hint from
  the environment alone, before it looks at the text: the same failure text
  yields the credential hint without \<^verbatim>\<open>ANTHROPIC_API_KEY\<close> and the
  out-of-memory hint with it; and a thrown value that is not an \<^verbatim>\<open>Error\<close> is
  reported as \<open>Unknown error\<close>, whatever it says.
\<close>

theorem hint_from_text_counterexample:
  "fst (proxy_handler (scripted oom) no_env chat_request ((), [])) =
     Inr (c_json [(''error'', JStr ''Clawdbot gateway failed to start''),
                  (''details'', JStr ''process exited: OOM''),
                  (''hint'', JStr ''ANTHROPIC_API_KEY is not set. Run: wrangler secret put ANTHROPIC_API_KEY'')]
            503) \<and>
   fst (proxy_handler (scripted oom) key_env chat_request ((), [])) =
     Inr (c_json [(''error'', JStr ''Clawdbot gateway failed to start''),
                  (''details'', JStr ''process exited: OOM''),
                  (''hint'', JStr ''Gateway ran out of memory. Try again or check for memory leaks.'')]
            503) \<and>
   fst (proxy_handler (scripted oom_raw) key_env chat_request ((), [])) =
     Inr (c_json [(''error'', JStr ''Clawdbot gateway failed to start''),
                  (''details'', JStr ''Unknown error''),
                  (''hint'', JStr ''Check worker logs with: wrangler tail'')]
            503)"
  by (simp add: proxy_handler_def failure_hint_def error_message_def run_defs do_defs fixture_defs)

text \<open>
  Claim C7 as amended: when the supervisor fails with \<open>err\<close>, the handler
  answers 503 with a JSON body of three fields: the fixed error title, the
  message of \<open>err\<close> (\<open>Unknown error\<close> when \<open>err\<close> is not an \<^verbatim>\<open>Error\<close>), and a
  hint, which is the missing-credential hint when \<^verbatim>\<open>ANTHROPIC_API_KEY\<close> is
  unset or empty, else the out-of-memory hint when the message contains
  \<open>heap out of memory\<close> or \<open>OOM\<close>, else the default. Nothing is retried: the
  handler adds one console line to the supervisor's trace, and the failed run
  made exactly one start call.
\<close>

theorem supervision_failure_response:
  assumes "ensureClawdbotGateway sb env (w, []) = (Inl err, (w', t))"
  shows "proxy_handler sb env req (w, []) =
           (Inr \<lparr>status = 503,
                 body = JsonBody (JObj
                   [(''error'', JStr ''Clawdbot gateway failed to start''),
                    (''details'', JStr (case err of Error m \<Rightarrow> m | NonError _ \<Rightarrow> ''Unknown error'')),
                    (''hint'', JStr
                       (if ANTHROPIC_API_KEY env = None \<or> ANTHROPIC_API_KEY env = Some []
                        then ''ANTHROPIC_API_KEY is not set. Run: wrangler secret put ANTHROPIC_API_KEY''
                        else if str_includes (error_message err) ''heap out of memory'' \<or>
                                str_includes (error_message err) ''OOM''
                        then ''Gateway ran out of memory. Try again or check for memory leaks.''
                        else ''Check worker logs with: wrangler tail''))])\<rparr>,
            (w', t @ [Console Err [Str ''Failed to start Clawdbot:'', Thrown err]])) \<and>
         length (filter is_start t) = 1"
proof -
  have "failure_hint env (error_message err) =
          (if ANTHROPIC_API_KEY env = None \<or> ANTHROPIC_API_KEY env = Some []
           then ''ANTHROPIC_API_KEY is not set. Run: wrangler secret put ANTHROPIC_API_KEY''
           else if str_includes (error_message err) ''heap out of memory'' \<or>
                   str_includes (error_message err) ''OOM''
           then ''Gateway ran out of memory. Try again or check for memory leaks.''
           else ''Check worker logs with: wrangler tail'')"
    by (cases "ANTHROPIC_API_KEY env") (simp_all add: failure_hint_def Let_def)
  moreover have "error_message err = (case err of Error m \<Rightarrow> m | NonError _ \<Rightarrow> ''Unknown error'')"
    by (simp add: error_message_def)
  ultimately show ?thesis
    using assms failed_ensure_starts_once [OF assms]
    by (simp add: proxy_handler_def console_error_def c_json_def Let_def)
qed

theorem supervision_failure_response_witness:
  "fst (ensureClawdbotGateway (scripted oom) key_env ((), [])) = Inl (Error ''process exited: OOM'') \<and>
   fst (proxy_handler (scripted oom) key_env chat_request ((), [])) =
     Inr \<lparr>status = 503,
          body = JsonBody (JObj
            [(''error'', JStr ''Clawdbot gateway failed to start''),
             (''details'', JStr ''process exited: OOM''),
             (''hint'', JStr ''Gateway ran out of memory. Try again or check for memory leaks.'')])\<rparr> \<and>
   length (filter is_start (snd (snd (ensureClawdbotGateway (scripted oom) key_env ((), []))))) = 1"
proof -
  have r: "fst (ensureClawdbotGateway (scripted oom) key_env ((), [])) = Inl (Error ''process exited: OOM'')"
    by (simp add: eval_defs)
  then obtain t where e: "ensureClawdbotGateway (scripted oom) key_env ((), []) =
     (Inl (Error ''process exited: OOM''), ((), t))"
    by (cases "ensureClawdbotGateway (scripted oom) key_env ((), [])") auto
  have k: "ANTHROPIC_API_KEY key_env = Some ''sk-test''"
    by (simp add: key_env_def no_env_def)
  from supervision_failure_response [OF e, of chat_request] k
  have "fst (proxy_handler (scripted oom) key_env chat_request ((), [])) =
     Inr \<lparr>status = 503,
          body = JsonBody (JObj
            [(''error'', JStr ''Clawdbot gateway failed to start''),
             (''details'', JStr ''process exited: OOM''),
             (''hint'', JStr ''Gateway ran out of memory. Try again or check for memory leaks.'')])\<rparr> \<and>
     length (filter is_start t) = 1"
    by (simp add: error_message_def)
  then show ?thesis using e by simp
qed

subsection \<open>C8: the closed gate answers not found\<close>

text \<open>
  Claim C8: when \<^verbatim>\<open>DEBUG_ROUTES_ENABLED\<close> is \<open>false\<close>, every request whose path
  lies under \<^verbatim>\<open>/debug\<close>, whatever its method, is answered by the gate with
  status 404 (not 403) and the body \<open>Debug routes are disabled\<close>; no handler
  runs and the state is untouched.
\<close>

theorem debug_gate_off_not_found:
  assumes "DEBUG_ROUTES_ENABLED env = Some ''false''" and "under_debug (pathname req)"
  shows "\<exists>resp. app_fetch sb dbg env req s = (Inr resp, s) \<and>
           status resp = 404 \<and> status resp \<noteq> 403 \<and>
           body resp = JsonBody (JObj [(''error'', JStr ''Debug routes are disabled'')])"
proof -
  have "pathname req \<noteq> ''/sandbox-health''"
    using assms(2) by (auto simp: under_debug_def)
  then show ?thesis
    using assms by (simp add: app_fetch_def debugEnabled_def c_json_def)
qed

theorem debug_gate_off_not_found_witness:
  "DEBUG_ROUTES_ENABLED gate_off_env = Some ''false'' \<and>
   under_debug (pathname version_request) \<and>
   (\<exists>resp. app_fetch (scripted registry_down) stub_routes gate_off_env version_request ((), []) =
             (Inr resp, ((), [])) \<and>
           status resp = 404 \<and> status resp \<noteq> 403 \<and>
           body resp = JsonBody (JObj [(''error'', JStr ''Debug routes are disabled'')]))"
proof -
  have g: "DEBUG_ROUTES_ENABLED gate_off_env = Some ''false''"
    by (simp add: gate_off_env_def no_env_def)
  have u: "under_debug (pathname version_request)"
    by (simp add: under_debug_def version_request_def)
  from debug_gate_off_not_found [OF g u] g u show ?thesis by blast
qed

subsection \<open>C9: a failed kill does not stop the restart\<close>

text \<open>
  Claim C9: when the probe of the existing process rejects and the kill rejects
  too, the kill error is printed and the next line printed is the start of a new
  gateway; the start call follows; and the supervisor's outcome is that of a
  fresh start from the world the kill left, in which the kill error plays no
  part.
\<close>

theorem kill_failure_not_propagated:
  assumes "findExistingClawdbotProcess sb (w, []) = (Some p, (w1, t1))"
      and "waitForPort sb p CLAWDBOT_PORT \<lparr>mode = ''tcp'', timeout = STARTUP_TIMEOUT_MS\<rparr> w1 = (Inl e, w2)"
      and "kill sb p w2 = (Inl killError, w3)"
  shows "fst (ensureClawdbotGateway sb env (w, [])) = fst (start_new_gateway sb env (w3, [])) \<and>
         (\<exists>pre sr post.
            snd (snd (ensureClawdbotGateway sb env (w, []))) =
              pre @ Kill p (Inl killError) #
              Console Log [Str ''Failed to kill process:'', Thrown killError] #
              Console Log [Str ''Starting new Clawdbot gateway...''] # post \<and>
            StartProcess start_command (if buildEnvVars env = [] then None else Some (buildEnvVars env)) sr
              \<in> set post)"
proof -
  let ?pre = "t1 @
              [Console Log [Str ''Found existing Clawdbot process:'', Str (proc_id p),
                            Str ''status:'', Str (proc_status p)],
               Console Log [Str ''Waiting for Clawdbot gateway on port'', Num CLAWDBOT_PORT,
                            Str ''timeout:'', Num STARTUP_TIMEOUT_MS],
               full_probe p (Inl e),
               Console Log [Str ''Existing process not reachable after full timeout, killing and restarting...'']]"
  let ?h = "?pre @ [Kill p (Inl killError), Console Log [Str ''Failed to kill process:'', Thrown killError]]"
  have st: "ensureClawdbotGateway sb env (w, []) = start_new_gateway sb env (w3, ?h)"
    using ensure_stuck [OF assms, of env] by simp
  obtain r' w'' sr post where
    sn: "\<forall>t. start_new_gateway sb env (w3, t) =
           (r', (w'', t @ start_banner env @ StartProcess start_command (start_env env) sr # post))"
    using start_new_banner [of sb env w3] by blast
  have res: "fst (ensureClawdbotGateway sb env (w, [])) = fst (start_new_gateway sb env (w3, []))"
    using st sn by simp
  have "snd (snd (ensureClawdbotGateway sb env (w, []))) =
          ?pre @ Kill p (Inl killError) #
          Console Log [Str ''Failed to kill process:'', Thrown killError] #
          Console Log [Str ''Starting new Clawdbot gateway...''] #
          (tl (start_banner env) @ StartProcess start_command (start_env env) sr # post)"
    using st sn by simp
  then show ?thesis
    using res
    by (intro conjI exI[of _ ?pre] exI[of _ sr]
          exI[of _ "tl (start_banner env) @ StartProcess start_command (start_env env) sr # post"])
       (simp_all add: start_env_def)
qed

theorem kill_failure_not_propagated_witness:
  "findExistingClawdbotProcess (scripted stuck) ((), []) =
     (Some old_proc, ((), [ListProcesses (Inr [old_proc])])) \<and>
   waitForPort (scripted stuck) old_proc CLAWDBOT_PORT
     \<lparr>mode = ''tcp'', timeout = STARTUP_TIMEOUT_MS\<rparr> () = (Inl (Error ''port 18789 not ready''), ()) \<and>
   kill (scripted stuck) old_proc () = (Inl (Error ''no such process''), ()) \<and>
   fst (ensureClawdbotGateway (scripted stuck) no_env ((), [])) = Inr new_proc \<and>
   fst (start_new_gateway (scripted stuck) no_env ((), [])) = Inr new_proc \<and>
   (\<exists>pre sr post.
      snd (snd (ensureClawdbotGateway (scripted stuck) no_env ((), []))) =
        pre @ Kill old_proc (Inl (Error ''no such process'')) #
        Console Log [Str ''Failed to kill process:'', Thrown (Error ''no such process'')] #
        Console Log [Str ''Starting new Clawdbot gateway...''] # post \<and>
      StartProcess start_command None sr \<in> set post)"
proof -
  have f: "findExistingClawdbotProcess (scripted stuck) ((), []) =
             (Some old_proc, ((), [ListProcesses (Inr [old_proc])]))"
    by (simp add: eval_defs)
  have p: "waitForPort (scripted stuck) old_proc CLAWDBOT_PORT
             \<lparr>mode = ''tcp'', timeout = STARTUP_TIMEOUT_MS\<rparr> () = (Inl (Error ''port 18789 not ready''), ())"
    by (simp add: eval_defs)
  have k: "kill (scripted stuck) old_proc () = (Inl (Error ''no such process''), ())"
    by (simp add: eval_defs)
  have r: "fst (start_new_gateway (scripted stuck) no_env ((), [])) = Inr new_proc"
    by (simp add: eval_defs)
  have e: "buildEnvVars no_env = []"
    by (simp add: eval_defs)
  from kill_failure_not_propagated [OF f p k, of no_env] f p k r e show ?thesis
    by simp
qed

subsection \<open>C10: the gate is open unless the variable is exactly false\<close>

text \<open>
  Claim C10: the gate is open exactly when \<^verbatim>\<open>DEBUG_ROUTES_ENABLED\<close> is not
  the string \<open>false\<close>; then a request under \<^verbatim>\<open>/debug\<close> passes the gate, and
  the three \<^verbatim>\<open>GET\<close> routes reach their handlers.
\<close>

theorem debug_gate_open_by_default:
  "(debugEnabled env \<longleftrightarrow> DEBUG_ROUTES_ENABLED env \<noteq> Some ''false'') \<and>
   (DEBUG_ROUTES_ENABLED env \<noteq> Some ''false'' \<and> under_debug (pathname req) \<longrightarrow>
      app_fetch sb dbg env req s = after_gate sb dbg env req s) \<and>
   (DEBUG_ROUTES_ENABLED env \<noteq> Some ''false'' \<and> http_method req = ''GET'' \<longrightarrow>
      (pathname req = ''/debug/version'' \<longrightarrow> app_fetch sb dbg env req s = version_handler dbg req s) \<and>
      (pathname req = ''/debug/processes'' \<longrightarrow> app_fetch sb dbg env req s = processes_handler dbg req s) \<and>
      (pathname req = ''/debug/logs'' \<longrightarrow> app_fetch sb dbg env req s = logs_handler dbg req s))"
proof -
  have "under_debug (pathname req) \<Longrightarrow> pathname req \<noteq> ''/sandbox-health''"
    by (auto simp: under_debug_def)
  then show ?thesis
    by (auto simp: app_fetch_def after_gate_def debugEnabled_def under_debug_def)
qed

text \<open>
  The theorem at the unset variable and at the values \<open>0\<close>, \<open>no\<close> and
  \<open>off\<close>, against the value \<open>false\<close>.
\<close>

theorem debug_gate_open_by_default_witness:
  "debugEnabled no_env \<and>
   debugEnabled (no_env\<lparr>DEBUG_ROUTES_ENABLED := Some ''0''\<rparr>) \<and>
   debugEnabled (no_env\<lparr>DEBUG_ROUTES_ENABLED := Some ''no''\<rparr>) \<and>
   debugEnabled (no_env\<lparr>DEBUG_ROUTES_ENABLED := Some ''off''\<rparr>) \<and>
   \<not> debugEnabled gate_off_env \<and>
   app_fetch (scripted registry_down) stub_routes (no_env\<lparr>DEBUG_ROUTES_ENABLED := Some ''off''\<rparr>)
     version_request ((), []) =
     (Inr (c_json [(''route'', JStr ''version'')] 200), ((), []))"
proof -
  have n: "DEBUG_ROUTES_ENABLED no_env \<noteq> Some ''false''"
    "DEBUG_ROUTES_ENABLED (no_env\<lparr>DEBUG_ROUTES_ENABLED := Some ''0''\<rparr>) \<noteq> Some ''false''"
    "DEBUG_ROUTES_ENABLED (no_env\<lparr>DEBUG_ROUTES_ENABLED := Some ''no''\<rparr>) \<noteq> Some ''false''"
    "DEBUG_ROUTES_ENABLED (no_env\<lparr>DEBUG_ROUTES_ENABLED := Some ''off''\<rparr>) \<noteq> Some ''false''"
    "DEBUG_ROUTES_ENABLED gate_off_env = Some ''false''"
    by (simp_all add: no_env_def gate_off_env_def)
  have v: "http_method version_request = ''GET''" "pathname version_request = ''/debug/version''"
    "version_handler stub_routes version_request ((), []) =
       (Inr (c_json [(''route'', JStr ''version'')] 200), ((), []))"
    by (simp_all add: version_request_def stub_routes_def)
  from debug_gate_open_by_default [of no_env version_request "scripted registry_down" stub_routes "((), [])"]
       debug_gate_open_by_default [of "no_env\<lparr>DEBUG_ROUTES_ENABLED := Some ''0''\<rparr>" version_request "scripted registry_down" stub_routes "((), [])"]
       debug_gate_open_by_default [of "no_env\<lparr>DEBUG_ROUTES_ENABLED := Some ''no''\<rparr>" version_request "scripted registry_down" stub_routes "((), [])"]
       debug_gate_open_by_default [of "no_env\<lparr>DEBUG_ROUTES_ENABLED := Some ''off''\<rparr>" version_request "scripted registry_down" stub_routes "((), [])"]
       debug_gate_open_by_default [of gate_off_env version_request "scripted registry_down" stub_routes "((), [])"]
       n v
  show ?thesis by simp
qed

end
